theory Spec2Isabelle
  imports
    Main
    "HOL-Library.Multiset"
    "HOL-Library.Sublist"
    "HOL-Library.Char_ord"
    "HOL-Library.List_Lexorder"
    "HOL-Library.Product_Lexorder"
begin

section \<open>JavaScript values\<close>

text \<open>
  The fields of a JSON request body, as the handlers see them after
  \<^verbatim>\<open>const { name, license_number, dob, age } = req.body\<close>. The three text fields are
  a JSON string, \<^verbatim>\<open>null\<close>, or not in the body at all (\<^verbatim>\<open>undefined\<close>); a body whose
  name, license number or dob is a number, a boolean, an array or an object is outside the
  model. The age is any scalar: the handlers pass it through \<^verbatim>\<open>parseInt\<close>. Numbers are
  integers, read as said below where they are printed. The characters of these strings are
  the code points below 256.
\<close>

datatype jstext = TUndefined | TNull | TStr string

datatype jsval = JUndefined | JNull | JBool bool | JNum int | JStr string

text \<open>The operator \<^verbatim>\<open>!v\<close>: true on \<^verbatim>\<open>undefined\<close>, \<^verbatim>\<open>null\<close>, \<^verbatim>\<open>false\<close>, \<^verbatim>\<open>0\<close> and \<^verbatim>\<open>""\<close>.\<close>

fun falsy_text :: "jstext \<Rightarrow> bool" where
  "falsy_text TUndefined = True"
| "falsy_text TNull = True"
| "falsy_text (TStr s) = (s = [])"

fun falsy :: "jsval \<Rightarrow> bool" where
  "falsy JUndefined = True"
| "falsy JNull = True"
| "falsy (JBool b) = (\<not> b)"
| "falsy (JNum n) = (n = 0)"
| "falsy (JStr s) = (s = [])"

subsection \<open>Number to string\<close>

text \<open>
  An integer \<open>n\<close> stands for the number whose decimal expansion JavaScript prints as
  \<open>n\<close>. Up to \<open>2^53\<close> in magnitude that is every integer. A larger number is printed
  with the fewest digits that read back to it and zeros after them, and \<open>n\<close> is the
  integer so printed, which is the number itself or rounds to it; the order of these
  integers is the order of the numbers. An integer that no number prints as stands for
  nothing.
\<close>

definition digit_char :: "nat \<Rightarrow> char" where
  "digit_char d = char_of (48 + d)"

fun nat_digits :: "nat \<Rightarrow> string" where
  "nat_digits n = (if n < 10 then [digit_char n] else nat_digits (n div 10) @ [digit_char (n mod 10)])"

declare nat_digits.simps [simp del]

text \<open>
  A positive integer without the zeros at its end, and the number of its digits less one.
\<close>

function strip10 :: "int \<Rightarrow> int" where
  "strip10 n = (if 0 < n \<and> n mod 10 = 0 then strip10 (n div 10) else n)"
  by pat_completeness auto

termination
  by (relation "measure nat") auto

declare strip10.simps [simp del]

function exponent10 :: "int \<Rightarrow> nat" where
  "exponent10 n = (if n < 10 then 0 else Suc (exponent10 (n div 10)))"
  by pat_completeness auto

termination
  by (relation "measure nat") auto

declare exponent10.simps [simp del]

text \<open>
  \<^verbatim>\<open>n.toString()\<close> and \<^verbatim>\<open>String(n)\<close> on an integer: the decimal digits below \<open>10^21\<close>;
  from there on the exponent form, the digits without the zeros at the end, a point after
  the first one, and \<^verbatim>\<open>e+\<close> with the number of digits less one. A minus sign comes first.
\<close>

definition magnitude_toString :: "int \<Rightarrow> string" where
  "magnitude_toString n =
     (if n < 10 ^ 21 then nat_digits (nat n)
      else let s = nat_digits (nat (strip10 n)) in
        hd s # (if tl s = [] then [] else CHR ''.'' # tl s) @ ''e+'' @ nat_digits (exponent10 n))"

definition int_toString :: "int \<Rightarrow> string" where
  "int_toString n =
     (if n < 0 then CHR ''-'' # magnitude_toString (- n) else magnitude_toString n)"

fun js_toString :: "jsval \<Rightarrow> string" where
  "js_toString JUndefined = ''undefined''"
| "js_toString JNull = ''null''"
| "js_toString (JBool b) = (if b then ''true'' else ''false'')"
| "js_toString (JNum n) = int_toString n"
| "js_toString (JStr s) = s"

subsection \<open>parseInt\<close>

text \<open>
  \<^verbatim>\<open>parseInt(v)\<close> with no radix: the argument is converted to a string, leading white space is
  dropped, then an optional sign, then a \<^verbatim>\<open>0x\<close> prefix selects radix 16, and the longest
  prefix of digits is read. No digit at all gives \<^verbatim>\<open>NaN\<close>, which is \<open>None\<close> here. The
  number read is the integer of the digits; JavaScript rounds it to the nearest number it
  has, which changes nothing up to \<open>2^53\<close> and nothing on the string that a number
  below \<open>10^21\<close> prints as. The white space below code point 256 is the tab, the four
  line and page breaks, the space and the no-break space.
\<close>

definition is_js_space :: "char \<Rightarrow> bool" where
  "is_js_space c = (of_char c \<in> {9, 10, 11, 12, 13, 32, 160 :: nat})"

definition dec_digit :: "char \<Rightarrow> nat option" where
  "dec_digit c = (let k = of_char c :: nat in if 48 \<le> k \<and> k \<le> 57 then Some (k - 48) else None)"

definition hex_digit :: "char \<Rightarrow> nat option" where
  "hex_digit c = (let k = of_char c :: nat in
     if 48 \<le> k \<and> k \<le> 57 then Some (k - 48)
     else if 97 \<le> k \<and> k \<le> 102 then Some (k - 87)
     else if 65 \<le> k \<and> k \<le> 70 then Some (k - 55)
     else None)"

fun digits_prefix :: "(char \<Rightarrow> nat option) \<Rightarrow> string \<Rightarrow> nat list" where
  "digits_prefix dv [] = []"
| "digits_prefix dv (c # cs) = (case dv c of None \<Rightarrow> [] | Some d \<Rightarrow> d # digits_prefix dv cs)"

definition digits_value :: "nat \<Rightarrow> nat list \<Rightarrow> nat" where
  "digits_value R ds = foldl (\<lambda>acc d. acc * R + d) 0 ds"

definition parseInt_string :: "string \<Rightarrow> int option" where
  "parseInt_string s =
     (let s1 = dropWhile is_js_space s;
          neg = (take 1 s1 = ''-'');
          s2 = (if take 1 s1 = ''-'' \<or> take 1 s1 = ''+'' then drop 1 s1 else s1);
          hex = (take 2 s2 = ''0x'' \<or> take 2 s2 = ''0X'');
          s3 = (if hex then drop 2 s2 else s2);
          ds = digits_prefix (if hex then hex_digit else dec_digit) s3
      in if ds = [] then None
         else Some ((if neg then - 1 else 1) * int (digits_value (if hex then 16 else 10) ds)))"

definition parseInt :: "jsval \<Rightarrow> int option" where
  "parseInt v = parseInt_string (js_toString v)"

subsection \<open>Strings\<close>

text \<open>
  The strings of the client are sequences of 16-bit code units, each a number; \<open>js\<close> is
  the string of ASCII characters as code units. The strings of the request bodies and of
  the table, and the strings of digits that numbers print as, are lists of characters.
\<close>

type_synonym js_string = "nat list"

definition js :: "string \<Rightarrow> js_string" where
  "js s = map of_char s"

fun startsWith :: "'a list \<Rightarrow> 'a list \<Rightarrow> bool" where
  "startsWith s [] = True"
| "startsWith [] (c # t) = False"
| "startsWith (a # s) (c # t) = (a = c \<and> startsWith s t)"

text \<open>\<^verbatim>\<open>s.includes(t)\<close>: \<open>t\<close> occurs in \<open>s\<close> at some position.\<close>

fun str_includes :: "'a list \<Rightarrow> 'a list \<Rightarrow> bool" where
  "str_includes [] t = (t = [])"
| "str_includes (a # s) t = (startsWith (a # s) t \<or> str_includes s t)"

section \<open>The record store\<close>

text \<open>
  The table \<^verbatim>\<open>nurses\<close> of both servers:
  \<^verbatim>\<open>id INTEGER PRIMARY KEY AUTOINCREMENT, name TEXT NOT NULL,
  license_number TEXT NOT NULL UNIQUE, dob TEXT NOT NULL, age INTEGER NOT NULL,
  created_at, updated_at DATETIME DEFAULT CURRENT_TIMESTAMP\<close>.
  The rows are kept in insertion order; \<open>seq\<close> is the largest id ever given out, which
  \<^verbatim>\<open>AUTOINCREMENT\<close> keeps so that an id is never used twice. The current time is a
  parameter of every write. The type of the text of a row is a parameter: in the table it
  is the strings of characters, and the client holds the same fields as strings of code
  units.
\<close>

type_synonym timestamp = string

record 's nurse_record =
  nid :: int
  name :: 's
  license_number :: 's
  dob :: 's
  age :: int
  created_at :: timestamp
  updated_at :: timestamp

type_synonym nurse = "string nurse_record"

record store =
  rows :: "nurse list"
  seq :: int

definition empty_store :: store where
  "empty_store = \<lparr>rows = [], seq = 0\<rparr>"

text \<open>
  What a failing statement throws. The handlers only ask whether the message contains
  \<^verbatim>\<open>UNIQUE constraint failed\<close>.
\<close>

datatype sqlite_error = UNIQUE_constraint_failed | NOT_NULL_constraint_failed

text \<open>
  Binding a text field to a parameter: a string is stored as it is; \<^verbatim>\<open>null\<close> is NULL,
  and so is \<^verbatim>\<open>undefined\<close> here (both handlers reject either before any statement runs).
\<close>

fun bind_text :: "jstext \<Rightarrow> string option" where
  "bind_text (TStr s) = Some s"
| "bind_text TNull = None"
| "bind_text TUndefined = None"

text \<open>
  The four values of a write: the three text parameters and \<^verbatim>\<open>parseInt(age)\<close>, a number
  or \<^verbatim>\<open>NaN\<close>, which is bound as NULL. The NOT NULL constraints of the four columns are
  checked before the UNIQUE constraint.
\<close>

definition bound_values ::
  "jstext \<Rightarrow> jstext \<Rightarrow> jstext \<Rightarrow> int option \<Rightarrow> sqlite_error + (string \<times> string \<times> string \<times> int)" where
  "bound_values n l d a =
     (case (bind_text n, bind_text l, bind_text d, a) of
        (Some n', Some l', Some d', Some a') \<Rightarrow> Inr (n', l', d', a')
      | _ \<Rightarrow> Inl NOT_NULL_constraint_failed)"

definition next_rowid :: "store \<Rightarrow> int" where
  "next_rowid s = foldr max (map nid (rows s)) (seq s) + 1"

text \<open>\<^verbatim>\<open>SELECT * FROM nurses WHERE id = ?\<close> with \<^verbatim>\<open>stmt.get\<close>: the row or \<^verbatim>\<open>undefined\<close>.\<close>

definition select_by_id :: "store \<Rightarrow> int \<Rightarrow> nurse option" where
  "select_by_id s i = find (\<lambda>r. nid r = i) (rows s)"

text \<open>\<^verbatim>\<open>SELECT * FROM nurses ORDER BY id DESC\<close> with \<^verbatim>\<open>stmt.all\<close>.\<close>

definition select_all_desc :: "store \<Rightarrow> nurse list" where
  "select_all_desc s = rev (sort_key nid (rows s))"

text \<open>
  \<^verbatim>\<open>INSERT INTO nurses (name, license_number, dob, age) VALUES (?, ?, ?, ?)\<close>: the new id
  (\<^verbatim>\<open>lastInsertRowid\<close>) and the store, or the error; a failed statement changes nothing.
\<close>

definition insert_nurse ::
  "timestamp \<Rightarrow> store \<Rightarrow> jstext \<Rightarrow> jstext \<Rightarrow> jstext \<Rightarrow> int option \<Rightarrow> sqlite_error + (int \<times> store)" where
  "insert_nurse now s n l d a =
     (case bound_values n l d a of
        Inl e \<Rightarrow> Inl e
      | Inr (n', l', d', a') \<Rightarrow>
          if l' \<in> set (map license_number (rows s)) then Inl UNIQUE_constraint_failed
          else let i = next_rowid s in
            Inr (i, \<lparr>rows = rows s @ [\<lparr>nid = i, name = n', license_number = l', dob = d', age = a',
                                      created_at = now, updated_at = now\<rparr>],
                    seq = i\<rparr>))"

text \<open>
  \<^verbatim>\<open>UPDATE nurses SET name = ?, license_number = ?, dob = ?, age = ?,
  updated_at = CURRENT_TIMESTAMP WHERE id = ?\<close>. The constraints are checked on the rows
  the statement changes; the license number must not belong to another row.
\<close>

definition update_nurse ::
  "timestamp \<Rightarrow> store \<Rightarrow> int \<Rightarrow> jstext \<Rightarrow> jstext \<Rightarrow> jstext \<Rightarrow> int option \<Rightarrow> sqlite_error + store" where
  "update_nurse now s i n l d a =
     (if select_by_id s i = None then Inr s
      else case bound_values n l d a of
        Inl e \<Rightarrow> Inl e
      | Inr (n', l', d', a') \<Rightarrow>
          if l' \<in> set (map license_number (filter (\<lambda>r. nid r \<noteq> i) (rows s)))
          then Inl UNIQUE_constraint_failed
          else Inr (s\<lparr>rows := map (\<lambda>r. if nid r = i
                         then r\<lparr>name := n', license_number := l', dob := d', age := a',
                                 updated_at := now\<rparr>
                         else r) (rows s)\<rparr>))"

text \<open>\<^verbatim>\<open>DELETE FROM nurses WHERE id = ?\<close>.\<close>

definition delete_by_id :: "store \<Rightarrow> int \<Rightarrow> store" where
  "delete_by_id s i = s\<lparr>rows := filter (\<lambda>r. nid r \<noteq> i) (rows s)\<rparr>"

text \<open>What the schema guarantees of every state of the table.\<close>

definition store_ok :: "store \<Rightarrow> bool" where
  "store_ok s \<longleftrightarrow>
     distinct (map nid (rows s)) \<and> distinct (map license_number (rows s)) \<and>
     list_all (\<lambda>r. nid r \<le> seq s) (rows s)"

section \<open>The API layer\<close>

text \<open>
  A request body with its four fields, and a response: the status and the JSON body.
  \<open>Error_body e\<close> is \<^verbatim>\<open>{ error: e }\<close> (with \<^verbatim>\<open>success: false\<close> in \<^verbatim>\<open>server.js\<close>),
  \<open>Nurses_body\<close> the list, \<open>Nurse_body m r\<close> the row \<open>r\<close> that \<^verbatim>\<open>stmt.get\<close> returned with
  the message of \<^verbatim>\<open>server.js\<close> if there is one, \<open>Message_body\<close> the answer to a delete.
  The path parameter \<^verbatim>\<open>:id\<close> is the integer the table compares it to (a parameter
  that is no number matches no row, as an id that is not in the table does). A failure of the
  database file itself (status 500 on a read) is outside the model.
\<close>

record request =
  body_name :: jstext
  body_license_number :: jstext
  body_dob :: jstext
  body_age :: jsval

datatype json_body =
    Error_body string
  | Nurses_body "nurse list"
  | Nurse_body "string option" "nurse option"
  | Message_body string

type_synonym response = "nat \<times> json_body"

subsection \<open>\<^verbatim>\<open>server.js\<close>\<close>

definition server_get_nurses :: "store \<Rightarrow> response" where
  "server_get_nurses s = (200, Nurses_body (select_all_desc s))"

definition server_get_nurse :: "store \<Rightarrow> int \<Rightarrow> response" where
  "server_get_nurse s i =
     (case select_by_id s i of
        None \<Rightarrow> (404, Error_body ''Nurse not found'')
      | Some r \<Rightarrow> (200, Nurse_body None (Some r)))"

definition server_invalid :: "request \<Rightarrow> bool" where
  "server_invalid b \<longleftrightarrow>
     falsy_text (body_name b) \<or> falsy_text (body_license_number b) \<or> falsy_text (body_dob b) \<or>
     falsy (body_age b)"

definition server_post_nurses :: "timestamp \<Rightarrow> store \<Rightarrow> request \<Rightarrow> response \<times> store" where
  "server_post_nurses now s b =
     (if server_invalid b
      then ((400, Error_body ''All fields are required: name, license_number, dob, age''), s)
      else case insert_nurse now s (body_name b) (body_license_number b) (body_dob b)
                  (parseInt (body_age b)) of
             Inr (i, s') \<Rightarrow>
               ((201, Nurse_body (Some ''Nurse created successfully'') (select_by_id s' i)), s')
           | Inl e \<Rightarrow>
               (if e = UNIQUE_constraint_failed
                then (400, Error_body ''License number already exists'')
                else (500, Error_body ''Failed to create nurse''), s))"

definition server_put_nurse :: "timestamp \<Rightarrow> store \<Rightarrow> int \<Rightarrow> request \<Rightarrow> response \<times> store" where
  "server_put_nurse now s i b =
     (if select_by_id s i = None then ((404, Error_body ''Nurse not found''), s)
      else if server_invalid b
      then ((400, Error_body ''All fields are required: name, license_number, dob, age''), s)
      else case update_nurse now s i (body_name b) (body_license_number b) (body_dob b)
                  (parseInt (body_age b)) of
             Inr s' \<Rightarrow>
               ((200, Nurse_body (Some ''Nurse updated successfully'') (select_by_id s' i)), s')
           | Inl e \<Rightarrow>
               (if e = UNIQUE_constraint_failed
                then (400, Error_body ''License number already exists'')
                else (500, Error_body ''Failed to update nurse''), s))"

definition server_delete_nurse :: "store \<Rightarrow> int \<Rightarrow> response \<times> store" where
  "server_delete_nurse s i =
     (if select_by_id s i = None then ((404, Error_body ''Nurse not found''), s)
      else ((200, Message_body ''Nurse deleted successfully''), delete_by_id s i))"

subsection \<open>\<^verbatim>\<open>backend/server.js\<close>\<close>

definition backend_get_nurses :: "store \<Rightarrow> response" where
  "backend_get_nurses s = (200, Nurses_body (select_all_desc s))"

definition backend_get_nurse :: "store \<Rightarrow> int \<Rightarrow> response" where
  "backend_get_nurse s i =
     (case select_by_id s i of
        None \<Rightarrow> (404, Error_body ''Nurse not found'')
      | Some r \<Rightarrow> (200, Nurse_body None (Some r)))"

definition backend_invalid :: "request \<Rightarrow> bool" where
  "backend_invalid b \<longleftrightarrow>
     falsy_text (body_name b) \<or> falsy_text (body_license_number b) \<or> falsy_text (body_dob b) \<or>
     body_age b = JUndefined"

definition backend_post_nurses :: "timestamp \<Rightarrow> store \<Rightarrow> request \<Rightarrow> response \<times> store" where
  "backend_post_nurses now s b =
     (if backend_invalid b then ((400, Error_body ''All fields are required''), s)
      else case insert_nurse now s (body_name b) (body_license_number b) (body_dob b)
                  (parseInt (body_age b)) of
             Inr (i, s') \<Rightarrow> ((201, Nurse_body None (select_by_id s' i)), s')
           | Inl e \<Rightarrow>
               (if e = UNIQUE_constraint_failed
                then (400, Error_body ''License number already exists'')
                else (500, Error_body ''Failed to create nurse''), s))"

definition backend_put_nurse :: "timestamp \<Rightarrow> store \<Rightarrow> int \<Rightarrow> request \<Rightarrow> response \<times> store" where
  "backend_put_nurse now s i b =
     (if backend_invalid b then ((400, Error_body ''All fields are required''), s)
      else if select_by_id s i = None then ((404, Error_body ''Nurse not found''), s)
      else case update_nurse now s i (body_name b) (body_license_number b) (body_dob b)
                  (parseInt (body_age b)) of
             Inr s' \<Rightarrow> ((200, Nurse_body None (select_by_id s' i)), s')
           | Inl e \<Rightarrow>
               (if e = UNIQUE_constraint_failed
                then (400, Error_body ''License number already exists'')
                else (500, Error_body ''Failed to update nurse''), s))"

definition backend_delete_nurse :: "store \<Rightarrow> int \<Rightarrow> response \<times> store" where
  "backend_delete_nurse s i =
     (if select_by_id s i = None then ((404, Error_body ''Nurse not found''), s)
      else ((200, Message_body ''Nurse deleted successfully''), delete_by_id s i))"

subsection \<open>The sample rows of \<^verbatim>\<open>server.js\<close>\<close>

text \<open>
  On an empty table \<^verbatim>\<open>server.js\<close> inserts \<^verbatim>\<open>sampleNurses\<close>, row by row, with the
  same INSERT statement.
\<close>

definition sampleNurses :: "(string \<times> string \<times> string \<times> int) list" where
  "sampleNurses =
     [(''Sarah Johnson'', ''RN-2024-001'', ''1985-03-15'', 39),
      (''Michael Chen'', ''RN-2024-002'', ''1990-07-22'', 34),
      (''Emily Williams'', ''RN-2024-003'', ''1988-11-08'', 36),
      (''David Martinez'', ''RN-2024-004'', ''1992-05-30'', 32),
      (''Jessica Brown'', ''RN-2024-005'', ''1987-09-12'', 37)]"

definition insert_sample :: "timestamp \<Rightarrow> string \<times> string \<times> string \<times> int \<Rightarrow> store \<Rightarrow> store" where
  "insert_sample now x s =
     (case x of (n, l, d, a) \<Rightarrow>
        (case insert_nurse now s (TStr n) (TStr l) (TStr d) (Some a) of
           Inr (i, s') \<Rightarrow> s' | Inl e \<Rightarrow> s))"

definition initial_store :: "timestamp \<Rightarrow> store" where
  "initial_store now = fold (insert_sample now) sampleNurses empty_store"

subsection \<open>The words of the specification\<close>

text \<open>A field that is absent from the body, or the empty string.\<close>

definition absent_or_empty_text :: "jstext \<Rightarrow> bool" where
  "absent_or_empty_text t \<longleftrightarrow> t = TUndefined \<or> t = TStr []"

definition absent_or_empty :: "jsval \<Rightarrow> bool" where
  "absent_or_empty v \<longleftrightarrow> v = JUndefined \<or> v = JStr []"

section \<open>The client\<close>

text \<open>
  The client keeps the rows it fetched as an array of objects with the fields of the table;
  the text fields are strings of code units and \<open>age\<close> is a number.
\<close>

type_synonym nurse_object = "js_string nurse_record"

datatype column = Name | License_number | Dob | Age

datatype direction = Asc | Desc

subsection \<open>What the engine provides\<close>

text \<open>
  Two functions of the JavaScript engine are parameters of the client:
  \<^verbatim>\<open>String.prototype.toLowerCase\<close>, which follows the case tables of Unicode, and what
  \<^verbatim>\<open>new Date(s)\<close> makes of a string that is not one of the date-only forms below, which
  every engine reads in its own way. Everything proved of the client holds for every
  engine.
\<close>

text \<open>
  A Date is its UTC calendar day (year, month from 1, day) and the milliseconds into that
  day, fewer than 86400000, compared in this order, which is the order of the time values.
  \<open>None\<close> is the invalid date, whose time value and calendar fields are \<^verbatim>\<open>NaN\<close>.
\<close>

type_synonym utc_instant = "int \<times> int \<times> int \<times> int"

record engine =
  toLowerCase :: "js_string \<Rightarrow> js_string"
  Date_other :: "js_string \<Rightarrow> utc_instant option"

subsection \<open>Dates\<close>

text \<open>
  The date-only forms of the ECMAScript date-time string format, \<^verbatim>\<open>YYYY\<close>,
  \<^verbatim>\<open>YYYY-MM\<close> and \<^verbatim>\<open>YYYY-MM-DD\<close> with a month from 01 to 12 and a day of that month:
  \<^verbatim>\<open>new Date(s)\<close> is midnight UTC of that day. An \<^verbatim>\<open><input type="date">\<close> has such a
  value or the empty one.
\<close>

definition unit_digit :: "nat \<Rightarrow> nat option" where
  "unit_digit c = (if 48 \<le> c \<and> c \<le> 57 then Some (c - 48) else None)"

definition number_of_digits :: "js_string \<Rightarrow> int option" where
  "number_of_digits s =
     (if s \<noteq> [] \<and> list_all (\<lambda>c. unit_digit c \<noteq> None) s
      then Some (int (foldl (\<lambda>acc c. acc * 10 + (c - 48)) 0 s)) else None)"

definition is_leap_year :: "int \<Rightarrow> bool" where
  "is_leap_year y \<longleftrightarrow> y mod 4 = 0 \<and> (y mod 100 \<noteq> 0 \<or> y mod 400 = 0)"

definition days_in_month :: "int \<Rightarrow> int \<Rightarrow> int" where
  "days_in_month y m =
     (if m = 2 then (if is_leap_year y then 29 else 28)
      else if m = 4 \<or> m = 6 \<or> m = 9 \<or> m = 11 then 30 else 31)"

definition parse_date_only :: "js_string \<Rightarrow> (int \<times> int \<times> int) option" where
  "parse_date_only s =
     (case number_of_digits (take 4 s) of
        None \<Rightarrow> None
      | Some y \<Rightarrow>
          if length s = 4 then Some (y, 1, 1)
          else if length s = 7 \<and> s ! 4 = 45 then
            (case number_of_digits (drop 5 s) of
               None \<Rightarrow> None
             | Some m \<Rightarrow> if 1 \<le> m \<and> m \<le> 12 then Some (y, m, 1) else None)
          else if length s = 10 \<and> s ! 4 = 45 \<and> s ! 7 = 45 then
            (case (number_of_digits (take 2 (drop 5 s)), number_of_digits (drop 8 s)) of
               (Some m, Some d) \<Rightarrow>
                 if 1 \<le> m \<and> m \<le> 12 \<and> 1 \<le> d \<and> d \<le> days_in_month y m then Some (y, m, d)
                 else None
             | _ \<Rightarrow> None)
          else None)"

definition new_Date :: "engine \<Rightarrow> js_string \<Rightarrow> utc_instant option" where
  "new_Date E s =
     (case parse_date_only s of
        Some (y, m, d) \<Rightarrow> Some (y, m, d, 0)
      | None \<Rightarrow> Date_other E s)"

text \<open>
  \<^verbatim>\<open>getFullYear\<close>, \<^verbatim>\<open>getMonth\<close> and \<^verbatim>\<open>getDate\<close> read a Date in the local time zone:
  \<open>tz\<close> is the offset of the zone from UTC at that instant, in minutes, positive to the
  east. The local day is the UTC day, the day before or the day after; the months
  count from 0.
\<close>

record date_fields =
  getFullYear :: int
  getMonth :: int
  getDate :: int

fun next_day :: "int \<times> int \<times> int \<Rightarrow> int \<times> int \<times> int" where
  "next_day (y, m, d) =
     (if d < days_in_month y m then (y, m, d + 1)
      else if m < 12 then (y, m + 1, 1)
      else (y + 1, 1, 1))"

fun previous_day :: "int \<times> int \<times> int \<Rightarrow> int \<times> int \<times> int" where
  "previous_day (y, m, d) =
     (if 1 < d then (y, m, d - 1)
      else if 1 < m then (y, m - 1, days_in_month y (m - 1))
      else (y - 1, 12, 31))"

definition shift_days :: "int \<Rightarrow> int \<times> int \<times> int \<Rightarrow> int \<times> int \<times> int" where
  "shift_days k day =
     (if 0 \<le> k then (next_day ^^ nat k) day else (previous_day ^^ nat (- k)) day)"

definition local_fields :: "int \<Rightarrow> utc_instant \<Rightarrow> date_fields" where
  "local_fields tz t =
     (case t of (y, m, d, ms) \<Rightarrow>
        (case shift_days ((ms + tz * 60000) div 86400000) (y, m, d) of
           (y', m', d') \<Rightarrow> \<lparr>getFullYear = y', getMonth = m' - 1, getDate = d'\<rparr>))"

subsection \<open>Comparing values\<close>

text \<open>
  The values the comparators compare with \<^verbatim>\<open><\<close> and \<^verbatim>\<open>>\<close>: numbers, where every
  comparison with \<^verbatim>\<open>NaN\<close> is false, Dates, which are compared as their time values, and
  strings, in the order of their code units. Within one sort both values come from the
  same column, so the three kinds never meet.
\<close>

datatype sortval = NumV "int option" | DateV "utc_instant option" | StrV js_string

fun js_less :: "sortval \<Rightarrow> sortval \<Rightarrow> bool" where
  "js_less (NumV (Some x)) (NumV (Some y)) = (x < y)"
| "js_less (DateV (Some x)) (DateV (Some y)) = (x < y)"
| "js_less (StrV x) (StrV y) = (x < y)"
| "js_less _ _ = False"

text \<open>
  \<^verbatim>\<open>xs.sort(cmp)\<close>. The sort is stable, and on a comparator that is a consistent order
  its result is determined: the elements in the comparator's order, equal ones in the order
  of the input. Insertion from the right computes it.
\<close>

fun insert_sorted :: "('a \<Rightarrow> 'a \<Rightarrow> int) \<Rightarrow> 'a \<Rightarrow> 'a list \<Rightarrow> 'a list" where
  "insert_sorted cmp x [] = [x]"
| "insert_sorted cmp x (y # ys) =
     (if cmp x y \<le> 0 then x # y # ys else y # insert_sorted cmp x ys)"

definition array_sort :: "('a \<Rightarrow> 'a \<Rightarrow> int) \<Rightarrow> 'a list \<Rightarrow> 'a list" where
  "array_sort cmp xs = foldr (insert_sorted cmp) xs []"

text \<open>The three \<^verbatim>\<open>return\<close> statements that end both comparators.\<close>

definition compare_values :: "direction \<Rightarrow> sortval \<Rightarrow> sortval \<Rightarrow> int" where
  "compare_values direction valueA valueB =
     (if js_less valueA valueB then (if direction = Asc then - 1 else 1)
      else if js_less valueB valueA then (if direction = Asc then 1 else - 1)
      else 0)"

subsection \<open>Sorting in the plain-JavaScript client\<close>

definition sortNurses_value :: "engine \<Rightarrow> column \<Rightarrow> nurse_object \<Rightarrow> sortval" where
  "sortNurses_value E column a =
     (case column of
        Age \<Rightarrow> NumV (parseInt (JNum (age a)))
      | Dob \<Rightarrow> DateV (new_Date E (dob a))
      | Name \<Rightarrow> StrV (toLowerCase E (name a))
      | License_number \<Rightarrow> StrV (toLowerCase E (license_number a)))"

definition sortNurses :: "engine \<Rightarrow> column \<Rightarrow> direction \<Rightarrow> nurse_object list \<Rightarrow> nurse_object list" where
  "sortNurses E column direction ns =
     array_sort (\<lambda>a b. compare_values direction (sortNurses_value E column a)
                         (sortNurses_value E column b)) ns"

text \<open>The state of the page and a click on a sortable header (\<^verbatim>\<open>setupSorting\<close>).\<close>

record page_state =
  nurses :: "nurse_object list"
  currentSortColumn :: "column option"
  sortDirection :: direction

definition header_click :: "engine \<Rightarrow> column \<Rightarrow> page_state \<Rightarrow> page_state" where
  "header_click E column st =
     (let d = (if currentSortColumn st = Some column
               then (if sortDirection st = Asc then Desc else Asc) else Asc)
      in \<lparr>nurses = sortNurses E column d (nurses st), currentSortColumn = Some column,
          sortDirection = d\<rparr>)"

subsection \<open>Sorting in the React client\<close>

definition handleSort_value :: "engine \<Rightarrow> column \<Rightarrow> nurse_object \<Rightarrow> sortval" where
  "handleSort_value E key a =
     (case key of
        Age \<Rightarrow> NumV (parseInt (JNum (age a)))
      | Dob \<Rightarrow> StrV (toLowerCase E (dob a))
      | Name \<Rightarrow> StrV (toLowerCase E (name a))
      | License_number \<Rightarrow> StrV (toLowerCase E (license_number a)))"

definition sortedNurses :: "engine \<Rightarrow> column \<Rightarrow> direction \<Rightarrow> nurse_object list \<Rightarrow> nurse_object list" where
  "sortedNurses E key direction ns =
     array_sort (\<lambda>a b. compare_values direction (handleSort_value E key a)
                         (handleSort_value E key b)) ns"

record app_state =
  app_nurses :: "nurse_object list"
  sortConfig_key :: "column option"
  sortConfig_direction :: direction

definition handleSort :: "engine \<Rightarrow> column \<Rightarrow> app_state \<Rightarrow> app_state" where
  "handleSort E key st =
     (let direction = (if sortConfig_key st = Some key \<and> sortConfig_direction st = Asc
                       then Desc else Asc)
      in \<lparr>app_nurses = sortedNurses E key direction (app_nurses st), sortConfig_key = Some key,
          sortConfig_direction = direction\<rparr>)"

subsection \<open>Filtering in the React client\<close>

definition filteredNurses :: "engine \<Rightarrow> js_string \<Rightarrow> nurse_object list \<Rightarrow> nurse_object list" where
  "filteredNurses E debouncedSearchTerm ns =
     filter (\<lambda>nurse.
        if debouncedSearchTerm = [] then True
        else let searchLower = toLowerCase E debouncedSearchTerm in
          str_includes (toLowerCase E (name nurse)) searchLower \<or>
          str_includes (toLowerCase E (license_number nurse)) searchLower \<or>
          str_includes (dob nurse) searchLower \<or>
          str_includes (js (int_toString (age nurse))) searchLower) ns"

subsection \<open>The age proposed for a date of birth\<close>

text \<open>
  Both clients make a Date of the entered date of birth and one of the present moment, and
  read the calendar fields of both with the getters. The fields of today are an input, as
  the getters return them; those of the date of birth are read in the zone of offset
  \<open>tz\<close>.
\<close>

definition calculated_age :: "date_fields \<Rightarrow> date_fields \<Rightarrow> int" where
  "calculated_age today birthDate =
     (let age0 = getFullYear today - getFullYear birthDate;
          monthDiff = getMonth today - getMonth birthDate
      in if monthDiff < 0 \<or> (monthDiff = 0 \<and> getDate today < getDate birthDate)
         then age0 - 1 else age0)"

text \<open>
  The plain-JavaScript client, on a change of \<^verbatim>\<open>nurseDob\<close> to \<open>v\<close>: the new value of the
  field \<^verbatim>\<open>nurseAge\<close>, which is \<^verbatim>\<open>age > 0 ? age : ''\<close>. On an invalid date the age is
  \<^verbatim>\<open>NaN\<close>, which is not above 0.
\<close>

definition nurseDob_change :: "engine \<Rightarrow> int \<Rightarrow> date_fields \<Rightarrow> js_string \<Rightarrow> string" where
  "nurseDob_change E tz today v =
     (case new_Date E v of
        None \<Rightarrow> ''''
      | Some t \<Rightarrow>
          if calculated_age today (local_fields tz t) > 0
          then int_toString (calculated_age today (local_fields tz t))
          else '''')"

text \<open>
  The React client, \<^verbatim>\<open>handleChange\<close> on the field \<^verbatim>\<open>dob\<close> with the entered value \<open>v\<close>:
  the age of the form afterwards. An empty value leaves the age as it was.
\<close>

definition handleChange_dob ::
  "engine \<Rightarrow> int \<Rightarrow> date_fields \<Rightarrow> js_string \<Rightarrow> string \<Rightarrow> string" where
  "handleChange_dob E tz today v previous_age =
     (if v \<noteq> [] then
        (case new_Date E v of
           None \<Rightarrow> ''NaN''
         | Some t \<Rightarrow> int_toString (calculated_age today (local_fields tz t)))
      else previous_age)"

subsection \<open>The words of the specification, for the client\<close>

text \<open>
  \<open>ys\<close> is \<open>xs\<close> ordered by \<open>key\<close> in a direction: the same elements, in the order of
  their keys, and those of equal key in the order they had in \<open>xs\<close>.
\<close>

definition ordered_by :: "('a \<Rightarrow> 'k::linorder) \<Rightarrow> direction \<Rightarrow> 'a list \<Rightarrow> 'a list \<Rightarrow> bool" where
  "ordered_by key d xs ys \<longleftrightarrow>
     mset ys = mset xs \<and>
     sorted_wrt (\<lambda>a b. if d = Asc then key a \<le> key b else key b \<le> key a) ys \<and>
     (\<forall>k. filter (\<lambda>r. key r = k) ys = filter (\<lambda>r. key r = k) xs)"

text \<open>\<open>q\<close> occurs in \<open>s\<close> when the case of the letters is ignored.\<close>

definition ci_substring :: "engine \<Rightarrow> js_string \<Rightarrow> js_string \<Rightarrow> bool" where
  "ci_substring E q s \<longleftrightarrow> sublist (toLowerCase E q) (toLowerCase E s)"

text \<open>
  Whether the month (from 1) and the day of a date of birth are still to come in the year
  of \<open>today\<close>.
\<close>

definition not_yet_this_year :: "date_fields \<Rightarrow> int \<Rightarrow> int \<Rightarrow> bool" where
  "not_yet_this_year today m d \<longleftrightarrow>
     getMonth today + 1 < m \<or> (getMonth today + 1 = m \<and> getDate today < d)"

subsection \<open>Examples\<close>

text \<open>
  An engine for the examples. Its \<^verbatim>\<open>toLowerCase\<close> is that of ECMAScript on the strings of
  ASCII characters, the only ones of the examples, and no example makes a Date of a string
  that is not a date-only form.
\<close>

definition ascii_toLowerCase :: "js_string \<Rightarrow> js_string" where
  "ascii_toLowerCase s = map (\<lambda>c. if 65 \<le> c \<and> c \<le> 90 then c + 32 else c) s"

definition example_engine :: engine where
  "example_engine = \<lparr>toLowerCase = ascii_toLowerCase, Date_other = (\<lambda>s. None)\<rparr>"

text \<open>The sample rows as the client holds them after it has fetched the list.\<close>

definition nurse_object :: "int \<Rightarrow> string \<Rightarrow> string \<Rightarrow> string \<Rightarrow> int \<Rightarrow> nurse_object" where
  "nurse_object i n l d a =
     \<lparr>nid = i, name = js n, license_number = js l, dob = js d, age = a,
      created_at = ''2024-01-01 00:00:00'', updated_at = ''2024-01-01 00:00:00''\<rparr>"

definition sample_objects :: "nurse_object list" where
  "sample_objects =
     [nurse_object 5 ''Jessica Brown'' ''RN-2024-005'' ''1987-09-12'' 37,
      nurse_object 4 ''David Martinez'' ''RN-2024-004'' ''1992-05-30'' 32,
      nurse_object 3 ''Emily Williams'' ''RN-2024-003'' ''1988-11-08'' 36,
      nurse_object 2 ''Michael Chen'' ''RN-2024-002'' ''1990-07-22'' 34,
      nurse_object 1 ''Sarah Johnson'' ''RN-2024-001'' ''1985-03-15'' 39]"

section \<open>Properties of the JavaScript values\<close>

subsection \<open>parseInt gives a number back\<close>

lemma dec_digit_digit_char: "d < 10 \<Longrightarrow> dec_digit (digit_char d) = Some d"
  by (simp add: dec_digit_def digit_char_def Let_def)

lemma of_char_digit_char: "d < 10 \<Longrightarrow> of_char (digit_char d) = (48 + d :: nat)"
  by (simp add: digit_char_def)

lemma nat_digits_all_digits: "c \<in> set (nat_digits m) \<Longrightarrow> \<exists>d<10. c = digit_char d"
proof (induction m rule: nat_digits.induct)
  case (1 n)
  show ?case
  proof (cases "n < 10")
    case True
    with "1.prems" show ?thesis by (auto simp: nat_digits.simps[of n])
  next
    case False
    with "1.prems" have "c \<in> set (nat_digits (n div 10)) \<or> c = digit_char (n mod 10)"
      by (auto simp: nat_digits.simps[of n])
    then show ?thesis
    proof
      assume "c \<in> set (nat_digits (n div 10))"
      with "1.IH" False show ?thesis by simp
    next
      assume "c = digit_char (n mod 10)"
      moreover have "n mod 10 < 10" by simp
      ultimately show ?thesis by blast
    qed
  qed
qed

lemma nat_digits_nonempty: "nat_digits m \<noteq> []"
  by (subst nat_digits.simps) simp

lemma digits_prefix_append:
  "(\<And>c. c \<in> set xs \<Longrightarrow> \<exists>d<10. c = digit_char d) \<Longrightarrow>
   digits_prefix dec_digit (xs @ ys) = map (\<lambda>c. the (dec_digit c)) xs @ digits_prefix dec_digit ys"
proof (induction xs)
  case Nil
  then show ?case by simp
next
  case (Cons x xs)
  from Cons.prems[of x] obtain d where "d < 10" "x = digit_char d" by auto
  then have "dec_digit x = Some d" by (simp add: dec_digit_digit_char)
  moreover have "digits_prefix dec_digit (xs @ ys) = map (\<lambda>c. the (dec_digit c)) xs @ digits_prefix dec_digit ys"
    using Cons by simp
  ultimately show ?case by simp
qed

lemma digits_prefix_nat_digits:
  "digits_prefix dec_digit (nat_digits m) = map (\<lambda>c. the (dec_digit c)) (nat_digits m)"
  using digits_prefix_append[of "nat_digits m" "[]"] nat_digits_all_digits by simp

lemma digits_value_nat_digits:
  "digits_value 10 (map (\<lambda>c. the (dec_digit c)) (nat_digits m)) = m"
proof (induction m rule: nat_digits.induct)
  case (1 n)
  show ?case
  proof (cases "n < 10")
    case True
    then show ?thesis
      by (simp add: nat_digits.simps[of n] digits_value_def dec_digit_digit_char)
  next
    case False
    with "1.IH" have IH: "foldl (\<lambda>acc d. acc * 10 + d) 0 (map (\<lambda>c. the (dec_digit c)) (nat_digits (n div 10))) = n div 10"
      by (simp add: digits_value_def)
    have "n mod 10 < 10" by simp
    then have "the (dec_digit (digit_char (n mod 10))) = n mod 10"
      by (simp only: dec_digit_digit_char option.sel)
    with False IH show ?thesis
      by (simp add: nat_digits.simps[of n] digits_value_def)
  qed
qed

lemma digit_char_not_special:
  assumes "d < 10"
  shows "\<not> is_js_space (digit_char d)" "digit_char d \<noteq> CHR ''-''" "digit_char d \<noteq> CHR ''+''"
    "digit_char d \<noteq> CHR ''x''" "digit_char d \<noteq> CHR ''X''"
proof -
  have v: "of_char (digit_char d) = (48 + d :: nat)" using assms by (rule of_char_digit_char)
  show "\<not> is_js_space (digit_char d)" using assms by (simp add: is_js_space_def v)
  have "of_char (digit_char d) \<noteq> (of_char CHR ''-'' :: nat)" using assms by (simp add: v)
  then show "digit_char d \<noteq> CHR ''-''" by auto
  have "of_char (digit_char d) \<noteq> (of_char CHR ''+'' :: nat)" using assms by (simp add: v)
  then show "digit_char d \<noteq> CHR ''+''" by auto
  have "of_char (digit_char d) \<noteq> (of_char CHR ''x'' :: nat)" using assms by (simp add: v)
  then show "digit_char d \<noteq> CHR ''x''" by auto
  have "of_char (digit_char d) \<noteq> (of_char CHR ''X'' :: nat)" using assms by (simp add: v)
  then show "digit_char d \<noteq> CHR ''X''" by auto
qed

lemma parseInt_string_plain:
  assumes "dropWhile is_js_space s = s" and "take 1 s \<noteq> ''-''" and "take 1 s \<noteq> ''+''"
    and "take 2 s \<noteq> ''0x''" and "take 2 s \<noteq> ''0X''"
    and "digits_prefix dec_digit s = ds" and "ds \<noteq> []"
  shows "parseInt_string s = Some (int (digits_value 10 ds))"
  unfolding parseInt_string_def Let_def using assms by simp

lemma parseInt_string_minus:
  assumes "take 2 s \<noteq> ''0x''" and "take 2 s \<noteq> ''0X''"
    and "digits_prefix dec_digit s = ds" and "ds \<noteq> []"
  shows "parseInt_string (CHR ''-'' # s) = Some (- int (digits_value 10 ds))"
proof -
  have "dropWhile is_js_space (CHR ''-'' # s) = CHR ''-'' # s"
    by (simp add: is_js_space_def)
  then show ?thesis
    unfolding parseInt_string_def Let_def using assms by simp
qed

lemma nat_digits_plain:
  shows "dropWhile is_js_space (nat_digits m) = nat_digits m"
    and "take 1 (nat_digits m) \<noteq> ''-''" and "take 1 (nat_digits m) \<noteq> ''+''"
    and "take 2 (nat_digits m) \<noteq> ''0x''" and "take 2 (nat_digits m) \<noteq> ''0X''"
proof -
  obtain c cs where s: "nat_digits m = c # cs"
    using nat_digits_nonempty[of m] by (cases "nat_digits m") auto
  have all: "\<And>x. x \<in> set (c # cs) \<Longrightarrow> \<exists>d<10. x = digit_char d"
    using nat_digits_all_digits[of _ m] by (simp only: s)
  from all[of c] obtain d where d: "d < 10" "c = digit_char d" by auto
  show "dropWhile is_js_space (nat_digits m) = nat_digits m"
    using d by (simp add: s digit_char_not_special)
  show "take 1 (nat_digits m) \<noteq> ''-''" "take 1 (nat_digits m) \<noteq> ''+''"
    using d by (simp_all add: s digit_char_not_special)
  have "take 2 (c # cs) \<noteq> ''0x'' \<and> take 2 (c # cs) \<noteq> ''0X''"
  proof (cases cs)
    case Nil
    then show ?thesis by simp
  next
    case (Cons e es)
    with all[of e] obtain d' where "d' < 10" "e = digit_char d'" by auto
    then have "e \<noteq> CHR ''x''" "e \<noteq> CHR ''X''" by (simp_all add: digit_char_not_special)
    with Cons show ?thesis by simp
  qed
  then show "take 2 (nat_digits m) \<noteq> ''0x''" "take 2 (nat_digits m) \<noteq> ''0X''"
    unfolding s by blast+
qed

lemma digits_prefix_nat_digits_nonempty:
  "map (\<lambda>c. the (dec_digit c)) (nat_digits m) \<noteq> []"
  by (simp add: nat_digits_nonempty)

lemma parseInt_string_nat_digits: "parseInt_string (nat_digits m) = Some (int m)"
  using parseInt_string_plain[OF nat_digits_plain digits_prefix_nat_digits
          digits_prefix_nat_digits_nonempty, of m]
  by (simp only: digits_value_nat_digits)

lemma parseInt_string_digit_first:
  assumes "d < 10" and "take 1 rest \<noteq> ''x''" and "take 1 rest \<noteq> ''X''"
  shows "parseInt_string (digit_char d # rest) =
           Some (int (digits_value 10 (d # digits_prefix dec_digit rest)))"
    and "parseInt_string (CHR ''-'' # digit_char d # rest) =
           Some (- int (digits_value 10 (d # digits_prefix dec_digit rest)))"
proof -
  let ?s = "digit_char d # rest"
  have dp: "digits_prefix dec_digit ?s = d # digits_prefix dec_digit rest"
    using assms(1) by (simp add: dec_digit_digit_char)
  have ne: "d # digits_prefix dec_digit rest \<noteq> []" by simp
  have x: "take 2 ?s \<noteq> ''0x''" "take 2 ?s \<noteq> ''0X''"
    using assms(2,3) by (cases rest; simp)+
  have sp: "dropWhile is_js_space ?s = ?s"
    using assms(1) by (simp add: digit_char_not_special)
  have sg: "take 1 ?s \<noteq> ''-''" "take 1 ?s \<noteq> ''+''"
    using assms(1) by (simp_all add: digit_char_not_special)
  show "parseInt_string ?s = Some (int (digits_value 10 (d # digits_prefix dec_digit rest)))"
    by (rule parseInt_string_plain[OF sp sg x dp ne])
  show "parseInt_string (CHR ''-'' # ?s) =
           Some (- int (digits_value 10 (d # digits_prefix dec_digit rest)))"
    by (rule parseInt_string_minus[OF x dp ne])
qed

lemma magnitude_toString_small: "n < 10 ^ 21 \<Longrightarrow> magnitude_toString n = nat_digits (nat n)"
  by (simp add: magnitude_toString_def)

text \<open>
  From \<open>10^21\<close> on the string of a number is a digit and then a point or the letter
  \<^verbatim>\<open>e\<close>.
\<close>

lemma magnitude_toString_large:
  assumes "\<not> n < 10 ^ 21"
  shows "\<exists>d rest. d < 10 \<and> magnitude_toString n = digit_char d # rest \<and>
           take 1 rest \<noteq> ''x'' \<and> take 1 rest \<noteq> ''X'' \<and> digits_prefix dec_digit rest = []"
proof -
  define s where "s = nat_digits (nat (strip10 n))"
  obtain c cs where s: "s = c # cs"
    using nat_digits_nonempty[of "nat (strip10 n)"] by (cases s) (auto simp: s_def)
  have "c \<in> set (nat_digits (nat (strip10 n)))" using s by (simp add: s_def[symmetric])
  then obtain d where d: "d < 10" "c = digit_char d"
    using nat_digits_all_digits by blast
  define rest where "rest = (if cs = [] then [] else CHR ''.'' # cs) @ ''e+''
          @ nat_digits (exponent10 n)"
  have "magnitude_toString n = digit_char d # rest"
    using assms by (simp add: magnitude_toString_def s_def[symmetric] s d rest_def)
  moreover have "take 1 rest \<noteq> ''x''" "take 1 rest \<noteq> ''X''" "digits_prefix dec_digit rest = []"
    by (simp_all add: rest_def dec_digit_def)
  ultimately show ?thesis using d(1) by blast
qed

text \<open>
  \<^verbatim>\<open>parseInt\<close> gives a number below \<open>10^21\<close> in magnitude back, and of every number it
  gives a number: from \<open>10^21\<close> on the first digit, with the sign.
\<close>

lemma parseInt_JNum: "\<bar>n\<bar> < 10 ^ 21 \<Longrightarrow> parseInt (JNum n) = Some n"
proof (cases "n < 0")
  case False
  assume "\<bar>n\<bar> < 10 ^ 21"
  with False show ?thesis
    by (simp add: parseInt_def int_toString_def magnitude_toString_small parseInt_string_nat_digits)
next
  case True
  assume "\<bar>n\<bar> < 10 ^ 21"
  with True have small: "- n < 10 ^ 21" by simp
  have "parseInt_string (CHR ''-'' # nat_digits (nat (- n))) = Some (- int (nat (- n)))"
    using parseInt_string_minus[OF nat_digits_plain(4,5) digits_prefix_nat_digits
          digits_prefix_nat_digits_nonempty, of "nat (- n)"]
    by (simp only: digits_value_nat_digits)
  with True small show ?thesis
    by (simp add: parseInt_def int_toString_def magnitude_toString_small)
qed

lemma parseInt_magnitude_toString:
  "\<exists>k. parseInt_string (magnitude_toString n) = Some (int k) \<and>
       parseInt_string (CHR ''-'' # magnitude_toString n) = Some (- int k)"
proof (cases "n < 10 ^ 21")
  case True
  have "parseInt_string (CHR ''-'' # nat_digits (nat n)) = Some (- int (nat n))"
    using parseInt_string_minus[OF nat_digits_plain(4,5) digits_prefix_nat_digits
          digits_prefix_nat_digits_nonempty, of "nat n"]
    by (simp only: digits_value_nat_digits)
  with True show ?thesis
    by (simp only: magnitude_toString_small parseInt_string_nat_digits) blast
next
  case False
  from magnitude_toString_large[OF False] obtain d rest where
    "d < 10" "magnitude_toString n = digit_char d # rest" "take 1 rest \<noteq> ''x''"
    "take 1 rest \<noteq> ''X''"
    by blast
  with parseInt_string_digit_first[of d rest] show ?thesis by simp
qed

lemma parseInt_JNum_defined: "\<exists>m. parseInt (JNum n) = Some m"
  using parseInt_magnitude_toString[of n] parseInt_magnitude_toString[of "- n"]
  by (auto simp: parseInt_def int_toString_def)


lemma parseInt_34: "parseInt (JStr ''34'') = Some 34"
  by (simp add: parseInt_def parseInt_string_def is_js_space_def dec_digit_def digits_value_def Let_def)

lemma parseInt_empty: "parseInt (JStr '''') = None"
  by (simp add: parseInt_def parseInt_string_def Let_def)

lemma parseInt_abc: "parseInt (JStr ''abc'') = None"
  by (simp add: parseInt_def parseInt_string_def is_js_space_def dec_digit_def Let_def)

subsection \<open>Strings\<close>

lemma startsWith_prefix: "startsWith s t \<longleftrightarrow> prefix t s"
  by (induction s t rule: startsWith.induct) auto

lemma str_includes_sublist: "str_includes s t \<longleftrightarrow> sublist t s"
  by (induction s) (auto simp: startsWith_prefix sublist_Cons_right)

lemma int_toString_0: "int_toString 0 = ''0''"
  by code_simp

lemma int_toString_33: "int_toString 33 = ''33''"
  by code_simp

lemma int_toString_34: "int_toString 34 = ''34''"
  by code_simp


section \<open>Properties of the record store\<close>

lemma select_by_id_None: "select_by_id s i = None \<longleftrightarrow> i \<notin> nid ` set (rows s)"
  by (auto simp: select_by_id_def find_None_iff)

lemma select_after_delete: "select_by_id (delete_by_id s i) i = None"
  by (simp add: select_by_id_def delete_by_id_def find_None_iff)

lemma foldr_max_ge: "r \<in> set xs \<Longrightarrow> nid r \<le> foldr max (map nid xs) m"
  by (induction xs) (auto simp: max_def)

lemma foldr_max_ge_init: "m \<le> foldr max (map nid xs) (m::int)"
  by (induction xs) (auto simp: max_def)

lemma next_rowid_fresh: "r \<in> set (rows s) \<Longrightarrow> nid r < next_rowid s"
  using foldr_max_ge[of r "rows s" "seq s"] by (simp add: next_rowid_def)

lemma next_rowid_gt_seq: "seq s < next_rowid s"
  using foldr_max_ge_init[of "seq s" "rows s"] by (simp add: next_rowid_def)

subsection \<open>The state of the table\<close>

lemma store_ok_empty: "store_ok empty_store"
  by (simp add: store_ok_def empty_store_def)

lemma insert_nurse_Inr:
  assumes "insert_nurse now s n l d a = Inr (i, s')"
  obtains n' l' d' a' where "bound_values n l d a = Inr (n', l', d', a')"
    and "l' \<notin> license_number ` set (rows s)" and "i = next_rowid s"
    and "s' = \<lparr>rows = rows s @ [\<lparr>nid = i, name = n', license_number = l', dob = d', age = a',
                                   created_at = now, updated_at = now\<rparr>], seq = i\<rparr>"
  using assms by (auto simp: insert_nurse_def Let_def split: sum.splits if_splits prod.splits)

lemma store_ok_insert:
  assumes "store_ok s" and "insert_nurse now s n l d a = Inr (i, s')"
  shows "store_ok s'"
proof -
  from assms(2) obtain n' l' d' a' where l': "l' \<notin> license_number ` set (rows s)"
    and i: "i = next_rowid s"
    and s': "s' = \<lparr>rows = rows s @ [\<lparr>nid = i, name = n', license_number = l', dob = d', age = a',
                                   created_at = now, updated_at = now\<rparr>], seq = i\<rparr>"
    by (rule insert_nurse_Inr)
  have fresh: "\<forall>r\<in>set (rows s). nid r < i"
    using next_rowid_fresh i by blast
  then have "i \<notin> nid ` set (rows s)" by auto
  with assms(1) l' fresh show ?thesis
    by (auto simp: store_ok_def s' list_all_iff intro: less_imp_le)
qed

lemma store_ok_delete: "store_ok s \<Longrightarrow> store_ok (delete_by_id s i)"
  by (auto simp: store_ok_def delete_by_id_def list_all_iff distinct_map_filter)

lemma map_nid_update: "map nid (map (\<lambda>r. if nid r = i then r\<lparr>name := n, license_number := l, dob := d, age := a, updated_at := t\<rparr> else r) xs) = map nid xs"
  by (induction xs) auto

lemma license_number_update:
  "map license_number (map (\<lambda>r. if nid r = i then r\<lparr>name := n, license_number := l, dob := d, age := a, updated_at := t\<rparr> else r) xs)
   = map (\<lambda>r. if nid r = i then l else license_number r) xs"
  by (induction xs) auto

lemma distinct_relabel:
  "distinct (map license_number (xs :: nurse list)) \<Longrightarrow> distinct (map nid xs) \<Longrightarrow>
   l \<notin> license_number ` {r \<in> set xs. nid r \<noteq> i} \<Longrightarrow>
   distinct (map (\<lambda>r. if nid r = i then l else license_number r) xs)"
proof (induction xs)
  case Nil
  then show ?case by simp
next
  case (Cons x xs)
  define g where "g = (\<lambda>r::nurse. if nid r = i then l else license_number r)"
  from Cons.prems have l: "\<forall>r\<in>set xs. nid r \<noteq> i \<longrightarrow> license_number r \<noteq> l" by auto
  from Cons.prems have "l \<notin> license_number ` {r \<in> set xs. nid r \<noteq> i}" by auto
  with Cons have IH: "distinct (map g xs)" by (simp add: g_def)
  have "g x \<noteq> g r" if r: "r \<in> set xs" for r
  proof -
    from r have "nid r \<in> set (map nid xs)" "license_number r \<in> set (map license_number xs)"
      by simp_all
    with Cons.prems(1,2) have ne: "nid r \<noteq> nid x" "license_number r \<noteq> license_number x"
      by auto
    show ?thesis
    proof (cases "nid x = i")
      case True
      with ne have "nid r \<noteq> i" by simp
      with l r True show ?thesis by (auto simp: g_def)
    next
      case False
      with Cons.prems(3) have "license_number x \<noteq> l" by auto
      with False ne show ?thesis by (auto simp: g_def)
    qed
  qed
  then have "g x \<notin> g ` set xs" by blast
  with IH have "distinct (map g (x # xs))" by simp
  then show ?case by (simp only: g_def)
qed

lemma distinct_license_update:
  "distinct (map license_number (xs :: nurse list)) \<Longrightarrow> distinct (map nid xs) \<Longrightarrow>
   l \<notin> set (map license_number (filter (\<lambda>r. nid r \<noteq> i) xs)) \<Longrightarrow>
   distinct (map license_number (map (\<lambda>r. if nid r = i then r\<lparr>name := n, license_number := l, dob := d, age := a, updated_at := t\<rparr> else r) xs))"
  by (simp only: license_number_update) (simp add: distinct_relabel)

lemma update_nurse_Inr:
  assumes "update_nurse now s i n l d a = Inr s'" and "select_by_id s i \<noteq> None"
  obtains n' l' d' a' where "bound_values n l d a = Inr (n', l', d', a')"
    and "l' \<notin> set (map license_number (filter (\<lambda>r. nid r \<noteq> i) (rows s)))"
    and "s' = s\<lparr>rows := map (\<lambda>r. if nid r = i
                         then r\<lparr>name := n', license_number := l', dob := d', age := a',
                                 updated_at := now\<rparr>
                         else r) (rows s)\<rparr>"
  using assms by (auto simp: update_nurse_def split: sum.splits if_splits prod.splits sqlite_error.splits)

lemma update_nurse_absent:
  assumes "update_nurse now s i n l d a = Inr s'" and "select_by_id s i = None"
  shows "s' = s"
proof -
  from assms(2) have "\<forall>r\<in>set (rows s). nid r \<noteq> i" by (auto simp: select_by_id_None)
  then have "map (\<lambda>r. if nid r = i then r\<lparr>name := n', license_number := l', dob := d', age := a', updated_at := now\<rparr> else r) (rows s) = rows s" for n' l' d' a'
    by (induction "rows s") (auto simp: map_idI)
  with assms show ?thesis
    by (auto simp: update_nurse_def split: sum.splits if_splits prod.splits sqlite_error.splits)
qed

lemma store_ok_update:
  assumes "store_ok s" and "update_nurse now s i n l d a = Inr s'"
  shows "store_ok s'"
proof (cases "select_by_id s i = None")
  case True
  from update_nurse_absent[OF assms(2) True] assms(1) show ?thesis by simp
next
  case False
  with assms(2) obtain n' l' d' a' where
    l': "l' \<notin> set (map license_number (filter (\<lambda>r. nid r \<noteq> i) (rows s)))"
    and s': "s' = s\<lparr>rows := map (\<lambda>r. if nid r = i
                         then r\<lparr>name := n', license_number := l', dob := d', age := a',
                                 updated_at := now\<rparr>
                         else r) (rows s)\<rparr>"
    by (rule update_nurse_Inr)
  let ?rows = "map (\<lambda>r. if nid r = i
                         then r\<lparr>name := n', license_number := l', dob := d', age := a',
                                 updated_at := now\<rparr>
                         else r) (rows s)"
  from assms(1) have "distinct (map nid ?rows)"
    by (simp only: map_nid_update store_ok_def)
  moreover from assms(1) l' have "distinct (map license_number ?rows)"
    unfolding store_ok_def by (intro distinct_license_update) simp_all
  moreover from assms(1) have "list_all (\<lambda>r. nid r \<le> seq s) ?rows"
    by (auto simp: store_ok_def list_all_iff)
  ultimately show ?thesis
    by (simp add: store_ok_def s')
qed

lemma initial_store_eq:
  "initial_store t =
     \<lparr>rows = [\<lparr>nid = 1, name = ''Sarah Johnson'', license_number = ''RN-2024-001'', dob = ''1985-03-15'', age = 39, created_at = t, updated_at = t\<rparr>,
              \<lparr>nid = 2, name = ''Michael Chen'', license_number = ''RN-2024-002'', dob = ''1990-07-22'', age = 34, created_at = t, updated_at = t\<rparr>,
              \<lparr>nid = 3, name = ''Emily Williams'', license_number = ''RN-2024-003'', dob = ''1988-11-08'', age = 36, created_at = t, updated_at = t\<rparr>,
              \<lparr>nid = 4, name = ''David Martinez'', license_number = ''RN-2024-004'', dob = ''1992-05-30'', age = 32, created_at = t, updated_at = t\<rparr>,
              \<lparr>nid = 5, name = ''Jessica Brown'', license_number = ''RN-2024-005'', dob = ''1987-09-12'', age = 37, created_at = t, updated_at = t\<rparr>],
      seq = 5\<rparr>"
  by (simp add: initial_store_def sampleNurses_def insert_sample_def insert_nurse_def
      bound_values_def empty_store_def next_rowid_def Let_def)

lemma store_ok_initial: "store_ok (initial_store t)"
  by (simp add: initial_store_eq store_ok_def)

text \<open>Every handler that writes keeps the table in such a state.\<close>

lemma server_post_nurses_ok: "store_ok s \<Longrightarrow> store_ok (snd (server_post_nurses now s b))"
  by (auto simp: server_post_nurses_def split: sum.splits prod.splits dest: store_ok_insert)

lemma server_put_nurse_ok: "store_ok s \<Longrightarrow> store_ok (snd (server_put_nurse now s i b))"
  by (auto simp: server_put_nurse_def split: sum.splits dest: store_ok_update)

lemma server_delete_nurse_ok: "store_ok s \<Longrightarrow> store_ok (snd (server_delete_nurse s i))"
  by (simp add: server_delete_nurse_def store_ok_delete)

lemma backend_post_nurses_ok: "store_ok s \<Longrightarrow> store_ok (snd (backend_post_nurses now s b))"
  by (auto simp: backend_post_nurses_def split: sum.splits prod.splits dest: store_ok_insert)

lemma backend_put_nurse_ok: "store_ok s \<Longrightarrow> store_ok (snd (backend_put_nurse now s i b))"
  by (auto simp: backend_put_nurse_def split: sum.splits dest: store_ok_update)

lemma backend_delete_nurse_ok: "store_ok s \<Longrightarrow> store_ok (snd (backend_delete_nurse s i))"
  by (simp add: backend_delete_nurse_def store_ok_delete)

section \<open>Properties of the API layer\<close>

subsection \<open>Duplicate license numbers\<close>

lemma insert_nurse_duplicate:
  assumes "bound_values n l d a = Inr (n', l', d', a')" and "l' \<in> set (map license_number (rows s))"
  shows "insert_nurse now s n l d a = Inl UNIQUE_constraint_failed"
  using assms by (simp add: insert_nurse_def)

text \<open>
  Claim C1, as amended. For every store state and every create request that passes the
  validation of the handler, whose age parses to an integer, and whose license number
  equals the license number of some existing record, POST /api/nurses answers 400 with
  \<^verbatim>\<open>License number already exists\<close>, in \<^verbatim>\<open>server.js\<close> and in \<^verbatim>\<open>backend/server.js\<close>,
  and the store is unchanged.
\<close>

theorem post_duplicate_license_rejected:
  assumes "body_license_number b = TStr l" and "l \<in> set (map license_number (rows s))"
    and "parseInt (body_age b) = Some a"
  shows "(\<not> server_invalid b \<longrightarrow>
            server_post_nurses now s b = ((400, Error_body ''License number already exists''), s)) \<and>
         (\<not> backend_invalid b \<longrightarrow>
            backend_post_nurses now s b = ((400, Error_body ''License number already exists''), s))"
proof -
  have "insert_nurse now s (body_name b) (body_license_number b) (body_dob b) (parseInt (body_age b))
          = Inl UNIQUE_constraint_failed"
    if "\<not> falsy_text (body_name b)" and "\<not> falsy_text (body_dob b)"
  proof -
    from that assms obtain n d where "body_name b = TStr n" "body_dob b = TStr d"
      by (cases "body_name b"; cases "body_dob b") auto
    with assms show ?thesis
      by (intro insert_nurse_duplicate[where l' = l and n' = n and d' = d and a' = a])
         (simp_all add: bound_values_def)
  qed
  then show ?thesis
    by (simp add: server_post_nurses_def backend_post_nurses_def server_invalid_def
        backend_invalid_def)
qed

theorem post_duplicate_license_rejected_witness:
  "server_post_nurses ''t1'' (initial_store ''t0'')
     \<lparr>body_name = TStr ''Ann Lee'', body_license_number = TStr ''RN-2024-003'',
      body_dob = TStr ''1990-01-01'', body_age = JStr ''34''\<rparr>
     = ((400, Error_body ''License number already exists''), initial_store ''t0'') \<and>
   backend_post_nurses ''t1'' (initial_store ''t0'')
     \<lparr>body_name = TStr ''Ann Lee'', body_license_number = TStr ''RN-2024-003'',
      body_dob = TStr ''1990-01-01'', body_age = JStr ''34''\<rparr>
     = ((400, Error_body ''License number already exists''), initial_store ''t0'')"
  using post_duplicate_license_rejected[of
      "\<lparr>body_name = TStr ''Ann Lee'', body_license_number = TStr ''RN-2024-003'',
        body_dob = TStr ''1990-01-01'', body_age = JStr ''34''\<rparr>"
      "''RN-2024-003''" "initial_store ''t0''" 34 "''t1''"]
  by (simp add: parseInt_34 initial_store_eq server_invalid_def backend_invalid_def)

text \<open>
  The validation comes before the INSERT in both handlers: a request with the license
  number of the first sample row and no name gets the validation message, not the
  duplicate-license message. And an age that does not parse is NULL in the INSERT, where
  the NOT NULL constraint fails before the UNIQUE one: the answer is 500.
\<close>

theorem post_duplicate_license_counterexample:
  "body_license_number \<lparr>body_name = TUndefined, body_license_number = TStr ''RN-2024-001'',
       body_dob = TStr ''1985-03-15'', body_age = JNum 39\<rparr>
     = TStr (license_number (hd (rows (initial_store ''t0'')))) \<and>
   server_post_nurses ''t1'' (initial_store ''t0'')
     \<lparr>body_name = TUndefined, body_license_number = TStr ''RN-2024-001'',
      body_dob = TStr ''1985-03-15'', body_age = JNum 39\<rparr>
     = ((400, Error_body ''All fields are required: name, license_number, dob, age''),
        initial_store ''t0'') \<and>
   backend_post_nurses ''t1'' (initial_store ''t0'')
     \<lparr>body_name = TUndefined, body_license_number = TStr ''RN-2024-001'',
      body_dob = TStr ''1985-03-15'', body_age = JNum 39\<rparr>
     = ((400, Error_body ''All fields are required''), initial_store ''t0'') \<and>
   server_post_nurses ''t1'' (initial_store ''t0'')
     \<lparr>body_name = TStr ''Ann Lee'', body_license_number = TStr ''RN-2024-001'',
      body_dob = TStr ''1985-03-15'', body_age = JStr ''abc''\<rparr>
     = ((500, Error_body ''Failed to create nurse''), initial_store ''t0'')"
  by (simp add: initial_store_eq server_post_nurses_def backend_post_nurses_def
      server_invalid_def backend_invalid_def insert_nurse_def bound_values_def parseInt_abc)

subsection \<open>Updates of an id that is not in the store\<close>

text \<open>
  Claim C2, as amended. For every store state and every id that is not in the store,
  PUT /api/nurses/:id leaves the store unchanged; \<^verbatim>\<open>server.js\<close> answers 404 with
  \<^verbatim>\<open>Nurse not found\<close> for any request body, and \<^verbatim>\<open>backend/server.js\<close> answers the same
  for every body that passes its validation.
\<close>

theorem put_absent_id_not_found:
  assumes "select_by_id s i = None"
  shows "server_put_nurse now s i b = ((404, Error_body ''Nurse not found''), s) \<and>
         (\<not> backend_invalid b \<longrightarrow>
            backend_put_nurse now s i b = ((404, Error_body ''Nurse not found''), s)) \<and>
         snd (backend_put_nurse now s i b) = s"
  using assms by (simp add: server_put_nurse_def backend_put_nurse_def)

theorem put_absent_id_not_found_witness:
  "select_by_id (initial_store ''t0'') 99 = None \<and>
   server_put_nurse ''t1'' (initial_store ''t0'') 99
     \<lparr>body_name = TStr ''Ann Lee'', body_license_number = TStr ''RN-9'',
      body_dob = TStr ''1990-01-01'', body_age = JNum 34\<rparr>
     = ((404, Error_body ''Nurse not found''), initial_store ''t0'') \<and>
   backend_put_nurse ''t1'' (initial_store ''t0'') 99
     \<lparr>body_name = TStr ''Ann Lee'', body_license_number = TStr ''RN-9'',
      body_dob = TStr ''1990-01-01'', body_age = JNum 34\<rparr>
     = ((404, Error_body ''Nurse not found''), initial_store ''t0'')"
  using put_absent_id_not_found[of "initial_store ''t0''" 99 "''t1''"
      "\<lparr>body_name = TStr ''Ann Lee'', body_license_number = TStr ''RN-9'',
        body_dob = TStr ''1990-01-01'', body_age = JNum 34\<rparr>"]
  by (simp add: initial_store_eq select_by_id_def backend_invalid_def)

text \<open>
  \<^verbatim>\<open>backend/server.js\<close> validates the body before it looks the id up: an empty name on
  the absent id 99 gets 400.
\<close>

theorem put_absent_id_counterexample:
  "select_by_id (initial_store ''t0'') 99 = None \<and>
   backend_put_nurse ''t1'' (initial_store ''t0'') 99
     \<lparr>body_name = TStr '''', body_license_number = TStr ''RN-9'',
      body_dob = TStr ''1990-01-01'', body_age = JNum 34\<rparr>
     = ((400, Error_body ''All fields are required''), initial_store ''t0'')"
  by (simp add: initial_store_eq select_by_id_def backend_put_nurse_def backend_invalid_def)

text \<open>
  Claim C10. In \<^verbatim>\<open>server.js\<close> the PUT handler looks the record up before it validates
  the body: for every id that is not in the store and every invalid body (a field that is
  missing, empty or otherwise falsy), the answer is 404 with \<^verbatim>\<open>Nurse not found\<close>, not the
  validation error, and the store is unchanged.
\<close>

theorem server_put_not_found_first:
  assumes "select_by_id s i = None" and "server_invalid b"
  shows "server_put_nurse now s i b = ((404, Error_body ''Nurse not found''), s)"
  using assms by (simp add: server_put_nurse_def)

theorem server_put_not_found_first_witness:
  "select_by_id (initial_store ''t0'') 99 = None \<and>
   server_invalid \<lparr>body_name = TStr '''', body_license_number = TUndefined,
      body_dob = TStr ''1990-01-01'', body_age = JNum 34\<rparr> \<and>
   server_put_nurse ''t1'' (initial_store ''t0'') 99
     \<lparr>body_name = TStr '''', body_license_number = TUndefined,
      body_dob = TStr ''1990-01-01'', body_age = JNum 34\<rparr>
     = ((404, Error_body ''Nurse not found''), initial_store ''t0'')"
  using server_put_not_found_first[of "initial_store ''t0''" 99
      "\<lparr>body_name = TStr '''', body_license_number = TUndefined,
        body_dob = TStr ''1990-01-01'', body_age = JNum 34\<rparr>" "''t1''"]
  by (simp add: initial_store_eq select_by_id_def server_invalid_def)

subsection \<open>Validation\<close>

lemma absent_or_empty_falsy: "absent_or_empty v \<Longrightarrow> falsy v"
  by (auto simp: absent_or_empty_def)

lemma absent_or_empty_text_falsy: "absent_or_empty_text t \<Longrightarrow> falsy_text t"
  by (auto simp: absent_or_empty_text_def)

text \<open>
  Claim C3, as amended. For every create request to either server, every update request
  to \<^verbatim>\<open>server.js\<close> on an id that is in the store and every update request to
  \<^verbatim>\<open>backend/server.js\<close>: when name, license number or dob is absent or empty, or age is
  absent (in \<^verbatim>\<open>server.js\<close>: absent or empty), the answer is 400 with the validation
  message and the store is unchanged. Conversely a request whose name, license number and
  dob are truthy and whose age is truthy (\<^verbatim>\<open>server.js\<close>) or present
  (\<^verbatim>\<open>backend/server.js\<close>) never gets the validation answer.
\<close>

theorem validation_rejects_missing_fields:
  "((absent_or_empty_text (body_name b) \<or> absent_or_empty_text (body_license_number b) \<or>
     absent_or_empty_text (body_dob b) \<or> absent_or_empty (body_age b)) \<longrightarrow>
      server_post_nurses now s b =
        ((400, Error_body ''All fields are required: name, license_number, dob, age''), s) \<and>
      (select_by_id s i \<noteq> None \<longrightarrow>
         server_put_nurse now s i b =
           ((400, Error_body ''All fields are required: name, license_number, dob, age''), s))) \<and>
   ((absent_or_empty_text (body_name b) \<or> absent_or_empty_text (body_license_number b) \<or>
     absent_or_empty_text (body_dob b) \<or> body_age b = JUndefined) \<longrightarrow>
      backend_post_nurses now s b = ((400, Error_body ''All fields are required''), s) \<and>
      backend_put_nurse now s i b = ((400, Error_body ''All fields are required''), s)) \<and>
   (\<not> falsy_text (body_name b) \<and> \<not> falsy_text (body_license_number b) \<and>
    \<not> falsy_text (body_dob b) \<longrightarrow>
      (\<not> falsy (body_age b) \<longrightarrow>
         fst (server_post_nurses now s b)
           \<noteq> (400, Error_body ''All fields are required: name, license_number, dob, age'') \<and>
         fst (server_put_nurse now s i b)
           \<noteq> (400, Error_body ''All fields are required: name, license_number, dob, age'')) \<and>
      (body_age b \<noteq> JUndefined \<longrightarrow>
         fst (backend_post_nurses now s b) \<noteq> (400, Error_body ''All fields are required'') \<and>
         fst (backend_put_nurse now s i b) \<noteq> (400, Error_body ''All fields are required'')))"
  by (auto simp: server_post_nurses_def server_put_nurse_def backend_post_nurses_def
      backend_put_nurse_def server_invalid_def backend_invalid_def
      dest: absent_or_empty_falsy absent_or_empty_text_falsy split: sum.splits prod.splits)

theorem validation_rejects_missing_fields_witness:
  "absent_or_empty_text (body_dob \<lparr>body_name = TStr ''Ann Lee'', body_license_number = TStr ''RN-9'',
       body_dob = TUndefined, body_age = JNum 34\<rparr>) \<and>
   select_by_id (initial_store ''t0'') 2 \<noteq> None \<and>
   server_post_nurses ''t1'' (initial_store ''t0'')
     \<lparr>body_name = TStr ''Ann Lee'', body_license_number = TStr ''RN-9'',
      body_dob = TUndefined, body_age = JNum 34\<rparr>
     = ((400, Error_body ''All fields are required: name, license_number, dob, age''),
        initial_store ''t0'') \<and>
   server_put_nurse ''t1'' (initial_store ''t0'') 2
     \<lparr>body_name = TStr ''Ann Lee'', body_license_number = TStr ''RN-9'',
      body_dob = TUndefined, body_age = JNum 34\<rparr>
     = ((400, Error_body ''All fields are required: name, license_number, dob, age''),
        initial_store ''t0'') \<and>
   backend_put_nurse ''t1'' (initial_store ''t0'') 2
     \<lparr>body_name = TStr ''Ann Lee'', body_license_number = TStr ''RN-9'',
      body_dob = TUndefined, body_age = JNum 34\<rparr>
     = ((400, Error_body ''All fields are required''), initial_store ''t0'')"
proof -
  let ?b = "\<lparr>body_name = TStr ''Ann Lee'', body_license_number = TStr ''RN-9'',
      body_dob = TUndefined, body_age = JNum 34\<rparr>"
  have h: "absent_or_empty_text (body_dob ?b)" by (simp add: absent_or_empty_text_def)
  have e: "select_by_id (initial_store ''t0'') 2 \<noteq> None"
    by (simp add: initial_store_eq select_by_id_def)
  from h e validation_rejects_missing_fields[of ?b "''t1''" "initial_store ''t0''" 2]
  show ?thesis by blast
qed

text \<open>
  Three requests, the first two with an empty field and the third with four fields that
  are there: \<^verbatim>\<open>server.js\<close> answers 404 to an update of an absent id whatever the body;
  \<^verbatim>\<open>backend/server.js\<close> lets an empty age through to the INSERT, where
  \<^verbatim>\<open>parseInt\<close> gives \<^verbatim>\<open>NaN\<close> and the NOT NULL constraint fails;
  \<^verbatim>\<open>server.js\<close> takes the number 0 as a missing age.
\<close>

theorem validation_counterexample:
  "absent_or_empty_text (body_name \<lparr>body_name = TStr '''', body_license_number = TStr ''RN-9'',
       body_dob = TStr ''1990-01-01'', body_age = JNum 34\<rparr>) \<and>
   server_put_nurse ''t1'' (initial_store ''t0'') 99
     \<lparr>body_name = TStr '''', body_license_number = TStr ''RN-9'',
      body_dob = TStr ''1990-01-01'', body_age = JNum 34\<rparr>
     = ((404, Error_body ''Nurse not found''), initial_store ''t0'') \<and>
   absent_or_empty (body_age \<lparr>body_name = TStr ''Ann Lee'', body_license_number = TStr ''RN-9'',
       body_dob = TStr ''1990-01-01'', body_age = JStr ''''\<rparr>) \<and>
   backend_post_nurses ''t1'' (initial_store ''t0'')
     \<lparr>body_name = TStr ''Ann Lee'', body_license_number = TStr ''RN-9'',
      body_dob = TStr ''1990-01-01'', body_age = JStr ''''\<rparr>
     = ((500, Error_body ''Failed to create nurse''), initial_store ''t0'') \<and>
   parseInt (JNum 0) = Some 0 \<and>
   server_post_nurses ''t1'' (initial_store ''t0'')
     \<lparr>body_name = TStr ''Ann Lee'', body_license_number = TStr ''RN-9'',
      body_dob = TStr ''1990-01-01'', body_age = JNum 0\<rparr>
     = ((400, Error_body ''All fields are required: name, license_number, dob, age''),
        initial_store ''t0'')"
  by (simp add: absent_or_empty_def absent_or_empty_text_def server_put_nurse_def
      select_by_id_def initial_store_eq backend_post_nurses_def backend_invalid_def
      insert_nurse_def bound_values_def parseInt_empty parseInt_JNum server_post_nurses_def
      server_invalid_def)

subsection \<open>Delete, then get\<close>

text \<open>
  Claim C7. For every store state that holds a record with the given id,
  DELETE /api/nurses/:id succeeds, and GET /api/nurses/:id on the store it leaves answers
  404 with \<^verbatim>\<open>Nurse not found\<close>; in both servers.
\<close>

theorem delete_then_get_not_found:
  assumes "select_by_id s i \<noteq> None"
  shows "fst (server_delete_nurse s i) = (200, Message_body ''Nurse deleted successfully'') \<and>
         server_get_nurse (snd (server_delete_nurse s i)) i = (404, Error_body ''Nurse not found'') \<and>
         fst (backend_delete_nurse s i) = (200, Message_body ''Nurse deleted successfully'') \<and>
         backend_get_nurse (snd (backend_delete_nurse s i)) i = (404, Error_body ''Nurse not found'')"
  using assms
  by (simp add: server_delete_nurse_def backend_delete_nurse_def server_get_nurse_def
      backend_get_nurse_def select_after_delete)

theorem delete_then_get_not_found_witness:
  "select_by_id (initial_store ''t0'') 2 \<noteq> None \<and>
   server_get_nurse (snd (server_delete_nurse (initial_store ''t0'') 2)) 2 = (404, Error_body ''Nurse not found'') \<and>
   backend_get_nurse (snd (backend_delete_nurse (initial_store ''t0'') 2)) 2 = (404, Error_body ''Nurse not found'')"
  using delete_then_get_not_found[of "initial_store ''t0''" 2]
  by (simp add: initial_store_eq select_by_id_def)

subsection \<open>The list\<close>

lemma select_all_desc_mset: "mset (select_all_desc s) = mset (rows s)"
  by (simp add: select_all_desc_def)

lemma select_all_desc_sorted:
  assumes "distinct (map nid (rows s))"
  shows "sorted_wrt (\<lambda>a b. nid b < nid a) (select_all_desc s)"
proof -
  have "sorted (map nid (sort_key nid (rows s)))" by simp
  moreover have "distinct (map nid (sort_key nid (rows s)))"
    using assms by (simp add: distinct_map)
  ultimately have "sorted_wrt (<) (map nid (sort_key nid (rows s)))"
    by (simp add: strict_sorted_iff)
  then have "sorted_wrt (\<lambda>a b. nid a < nid b) (sort_key nid (rows s))"
    by (simp add: sorted_wrt_map)
  then show ?thesis
    by (simp add: select_all_desc_def sorted_wrt_rev)
qed

text \<open>
  Claim C8. For every state of the table (the ids are distinct, as the primary key has
  them), GET /api/nurses answers 200 with all the records of the store, each once, in
  strictly descending order of id; in both servers.
\<close>

theorem list_newest_first:
  assumes "store_ok s"
  shows "server_get_nurses s = (200, Nurses_body (select_all_desc s)) \<and>
         backend_get_nurses s = (200, Nurses_body (select_all_desc s)) \<and>
         mset (select_all_desc s) = mset (rows s) \<and>
         sorted_wrt (\<lambda>a b. nid b < nid a) (select_all_desc s)"
  using assms
  by (simp add: server_get_nurses_def backend_get_nurses_def select_all_desc_mset
      select_all_desc_sorted store_ok_def)

theorem list_newest_first_witness:
  "store_ok (initial_store ''t0'') \<and>
   server_get_nurses (initial_store ''t0'')
     = (200, Nurses_body (select_all_desc (initial_store ''t0''))) \<and>
   backend_get_nurses (initial_store ''t0'')
     = (200, Nurses_body (select_all_desc (initial_store ''t0''))) \<and>
   mset (select_all_desc (initial_store ''t0'')) = mset (rows (initial_store ''t0'')) \<and>
   sorted_wrt (\<lambda>a b. nid b < nid a) (select_all_desc (initial_store ''t0'')) \<and>
   map nid (select_all_desc (initial_store ''t0'')) = [5, 4, 3, 2, 1]"
proof -
  have "store_ok (initial_store ''t0'')"
    by (simp add: initial_store_eq store_ok_def)
  moreover have "map nid (select_all_desc (initial_store ''t0'')) = [5, 4, 3, 2, 1]"
    by (simp add: initial_store_eq select_all_desc_def)
  ultimately show ?thesis
    using list_newest_first[of "initial_store ''t0''"] by blast
qed

section \<open>Properties of the client\<close>

subsection \<open>The sort of an array\<close>

lemma mset_insert_sorted: "mset (insert_sorted cmp x ys) = add_mset x (mset ys)"
  by (induction ys) auto

lemma array_sort_Nil: "array_sort cmp [] = []"
  by (simp add: array_sort_def)

lemma array_sort_Cons: "array_sort cmp (x # xs) = insert_sorted cmp x (array_sort cmp xs)"
  by (simp add: array_sort_def)

lemma mset_array_sort: "mset (array_sort cmp xs) = mset xs"
  by (induction xs) (auto simp: array_sort_Nil array_sort_Cons mset_insert_sorted)

lemma set_insert_sorted: "set (insert_sorted cmp x ys) = insert x (set ys)"
  using mset_insert_sorted[of cmp x ys] by (metis set_mset_add_mset_insert set_mset_mset)

lemma sorted_insert_sorted:
  assumes le: "\<And>a b. (cmp a b \<le> 0) = R a b"
    and total: "\<And>a b. R a b \<or> R b a"
    and trans: "\<And>a b c. R a b \<Longrightarrow> R b c \<Longrightarrow> R a c"
  shows "sorted_wrt R ys \<Longrightarrow> sorted_wrt R (insert_sorted cmp x ys)"
proof (induction ys)
  case Nil
  then show ?case by simp
next
  case (Cons y ys)
  show ?case
  proof (cases "cmp x y \<le> 0")
    case True
    then have "R x y" by (simp add: le)
    moreover from Cons.prems have "\<forall>z\<in>set ys. R y z" by simp
    ultimately have "\<forall>z\<in>set ys. R x z" using trans by blast
    with True \<open>R x y\<close> Cons.prems show ?thesis by simp
  next
    case False
    then have "\<not> R x y" by (simp add: le)
    with total have "R y x" by blast
    with False Cons show ?thesis by (auto simp: set_insert_sorted)
  qed
qed

lemma sorted_array_sort:
  assumes "\<And>a b. (cmp a b \<le> 0) = R a b" and "\<And>a b. R a b \<or> R b a"
    and "\<And>a b c. R a b \<Longrightarrow> R b c \<Longrightarrow> R a c"
  shows "sorted_wrt R (array_sort cmp xs)"
proof (induction xs)
  case Nil
  then show ?case by (simp add: array_sort_def)
next
  case (Cons x xs)
  have "array_sort cmp (x # xs) = insert_sorted cmp x (array_sort cmp xs)"
    by (simp add: array_sort_def)
  with Cons sorted_insert_sorted[of cmp R, OF assms] show ?case by simp
qed

lemma filter_insert_sorted:
  assumes "\<And>a b. key a = key b \<Longrightarrow> cmp a b \<le> 0"
  shows "filter (\<lambda>r. key r = k) (insert_sorted cmp x ys) =
         (if key x = k then x # filter (\<lambda>r. key r = k) ys else filter (\<lambda>r. key r = k) ys)"
proof (induction ys)
  case Nil
  then show ?case by simp
next
  case (Cons y ys)
  show ?case
  proof (cases "cmp x y \<le> 0")
    case True
    then show ?thesis by simp
  next
    case False
    with assms have "key x \<noteq> key y" by blast
    with False Cons show ?thesis by auto
  qed
qed

lemma stable_array_sort:
  assumes "\<And>a b. key a = key b \<Longrightarrow> cmp a b \<le> 0"
  shows "filter (\<lambda>r. key r = k) (array_sort cmp xs) = filter (\<lambda>r. key r = k) xs"
proof (induction xs)
  case Nil
  then show ?case by (simp add: array_sort_def)
next
  case (Cons x xs)
  have "array_sort cmp (x # xs) = insert_sorted cmp x (array_sort cmp xs)"
    by (simp add: array_sort_def)
  with Cons filter_insert_sorted[of key cmp k x, OF assms] show ?case by simp
qed

lemma ordered_by_array_sort:
  fixes key :: "'a \<Rightarrow> 'k::linorder"
  assumes "\<And>a b. (cmp a b \<le> 0) = (if d = Asc then key a \<le> key b else key b \<le> key a)"
  shows "ordered_by key d xs (array_sort cmp xs)"
proof -
  let ?R = "\<lambda>a b. if d = Asc then key a \<le> key b else key b \<le> key a"
  have "sorted_wrt ?R (array_sort cmp xs)"
    by (rule sorted_array_sort[of cmp ?R]) (use assms in \<open>auto split: if_splits\<close>)
  moreover have "filter (\<lambda>r. key r = k) (array_sort cmp xs) = filter (\<lambda>r. key r = k) xs" for k
    by (rule stable_array_sort) (simp add: assms)
  ultimately show ?thesis
    by (simp add: ordered_by_def mset_array_sort)
qed

lemma compare_values_NumV:
  "(compare_values d (NumV (Some x)) (NumV (Some y)) \<le> 0) = (if d = Asc then x \<le> y else y \<le> x)"
  by (auto simp: compare_values_def)





subsection \<open>Sorting by a column\<close>

text \<open>Both comparators compare the ages as \<^verbatim>\<open>parseInt\<close> reads them.\<close>

lemma compare_age:
  "(compare_values d (NumV (parseInt (JNum x))) (NumV (parseInt (JNum y))) \<le> 0) =
     (if d = Asc then the (parseInt (JNum x)) \<le> the (parseInt (JNum y))
      else the (parseInt (JNum y)) \<le> the (parseInt (JNum x)))"
proof -
  obtain m n where "parseInt (JNum x) = Some m" "parseInt (JNum y) = Some n"
    using parseInt_JNum_defined by blast
  then show ?thesis by (simp add: compare_values_NumV)
qed

lemma sortNurses_Age:
  "ordered_by (\<lambda>r. the (parseInt (JNum (age r)))) d xs (sortNurses E Age d xs)"
  unfolding sortNurses_def
  by (rule ordered_by_array_sort) (simp add: sortNurses_value_def compare_age)





lemma sortedNurses_Age:
  "ordered_by (\<lambda>r. the (parseInt (JNum (age r)))) d xs (sortedNurses E Age d xs)"
  unfolding sortedNurses_def
  by (rule ordered_by_array_sort) (simp add: handleSort_value_def compare_age)













subsection \<open>Ascending, then descending\<close>

lemma desc_of_asc:
  fixes key :: "'a \<Rightarrow> 'k::linorder"
  assumes asc: "ordered_by key Asc xs ys" and desc: "ordered_by key Desc ys zs"
    and dist: "distinct (map key xs)"
  shows "zs = rev ys"
proof -
  from asc have mys: "mset ys = mset xs" and sys: "sorted_wrt (\<lambda>a b. key a \<le> key b) ys"
    by (simp_all add: ordered_by_def)
  from desc have mzs: "mset zs = mset ys" and szs: "sorted_wrt (\<lambda>a b. key b \<le> key a) zs"
    by (simp_all add: ordered_by_def)
  from mys have "mset (map key ys) = mset (map key xs)" by simp
  with dist have dys: "distinct (map key ys)"
    using mset_eq_imp_distinct_iff by blast
  from mzs have "mset (map key (rev zs)) = mset (map key ys)" by simp
  with dys have dzs: "distinct (map key (rev zs))"
    using mset_eq_imp_distinct_iff by blast
  from mzs have sets: "set (rev zs) = set ys"
    by (metis set_rev set_mset_mset)
  have "sorted (map key ys)"
    using sys by (simp add: sorted_map)
  moreover have "sorted (map key (rev zs))"
    using szs by (simp add: sorted_map sorted_wrt_rev)
  moreover have "set (map key (rev zs)) = set (map key ys)"
    using sets by (simp only: set_map)
  ultimately have "map key (rev zs) = map key ys"
    using dys dzs by (intro sorted_distinct_set_unique)
  moreover have "inj_on key (set (rev zs) \<union> set ys)"
    using dys sets by (simp add: distinct_map)
  ultimately have "rev zs = ys"
    by (simp only: inj_on_map_eq_map)
  then show ?thesis by auto
qed

lemma distinct_parsed_ages:
  fixes xs :: "nurse_object list"
  assumes "distinct (map (\<lambda>r. parseInt (JNum (age r))) xs)"
  shows "distinct (map (\<lambda>r. the (parseInt (JNum (age r)))) xs)"
proof -
  have "map (\<lambda>r. parseInt (JNum (age r))) xs = map Some (map (\<lambda>r. the (parseInt (JNum (age r)))) xs)"
  proof (simp, intro ballI)
    fix r :: nurse_object
    obtain m where "parseInt (JNum (age r)) = Some m" using parseInt_JNum_defined by blast
    then show "parseInt (JNum (age r)) = Some (the (parseInt (JNum (age r))))" by simp
  qed
  with assms have "distinct (map Some (map (\<lambda>r. the (parseInt (JNum (age r)))) xs))"
    by (simp only:)
  then show ?thesis
    by (rule distinct_map[THEN iffD1, THEN conjunct1])
qed





text \<open>
  The same through the clicks: the first click on the age header sorts ascending, the
  second one descending, unless the table was already sorted by age ascending.
\<close>

lemma header_click_twice:
  assumes "distinct (map (\<lambda>r. parseInt (JNum (age r))) (nurses st))"
    and "\<not> (currentSortColumn st = Some Age \<and> sortDirection st = Asc)"
  shows "nurses (header_click E Age (header_click E Age st)) = rev (nurses (header_click E Age st))"
    and "sortDirection (header_click E Age st) = Asc"
    and "sortDirection (header_click E Age (header_click E Age st)) = Desc"
  using assms(2) desc_of_asc[OF sortNurses_Age sortNurses_Age distinct_parsed_ages[OF assms(1)]]
  by (auto simp: header_click_def Let_def)

lemma handleSort_twice:
  assumes "distinct (map (\<lambda>r. parseInt (JNum (age r))) (app_nurses st))"
    and "\<not> (sortConfig_key st = Some Age \<and> sortConfig_direction st = Asc)"
  shows "app_nurses (handleSort E Age (handleSort E Age st)) = rev (app_nurses (handleSort E Age st))"
    and "sortConfig_direction (handleSort E Age st) = Asc"
    and "sortConfig_direction (handleSort E Age (handleSort E Age st)) = Desc"
  using assms(2) desc_of_asc[OF sortedNurses_Age sortedNurses_Age distinct_parsed_ages[OF assms(1)]]
  by (auto simp: handleSort_def Let_def)

subsection \<open>Filtering\<close>

lemma filteredNurses_eq:
  "filteredNurses E q ns =
     filter (\<lambda>r. q = [] \<or> ci_substring E q (name r) \<or> ci_substring E q (license_number r) \<or>
                 sublist (toLowerCase E q) (dob r) \<or>
                 sublist (toLowerCase E q) (js (int_toString (age r)))) ns"
  unfolding filteredNurses_def
  by (intro filter_cong refl) (auto simp: ci_substring_def str_includes_sublist Let_def)

text \<open>
  Claim C5, as amended. For every collection, every query and every engine,
  \<^verbatim>\<open>filteredNurses\<close> is exactly the records, in their relative order, for which the
  query is empty, or is a case-insensitive substring of the name or of the license number,
  or, once lower-cased, is a substring of the dob as it is stored or of the string of the
  age, which is in exponent form from \<open>10^21\<close> on. For the empty query it is the whole
  collection, unchanged. Where lower-casing changes neither the dob nor the string of the
  age of any record, the match on these two is case-insensitive as well.
\<close>

theorem filter_matches_substring:
  "filteredNurses E q ns =
     filter (\<lambda>r. q = [] \<or> ci_substring E q (name r) \<or> ci_substring E q (license_number r) \<or>
                 sublist (toLowerCase E q) (dob r) \<or>
                 sublist (toLowerCase E q) (js (int_toString (age r)))) ns \<and>
   filteredNurses E [] ns = ns \<and>
   (list_all (\<lambda>r. toLowerCase E (dob r) = dob r \<and>
                   toLowerCase E (js (int_toString (age r))) = js (int_toString (age r))) ns \<longrightarrow>
      filteredNurses E q ns =
        filter (\<lambda>r. q = [] \<or> ci_substring E q (name r) \<or> ci_substring E q (license_number r) \<or>
                    ci_substring E q (dob r) \<or> ci_substring E q (js (int_toString (age r)))) ns)"
proof (intro conjI impI)
  show "filteredNurses E q ns =
     filter (\<lambda>r. q = [] \<or> ci_substring E q (name r) \<or> ci_substring E q (license_number r) \<or>
                 sublist (toLowerCase E q) (dob r) \<or>
                 sublist (toLowerCase E q) (js (int_toString (age r)))) ns"
    by (rule filteredNurses_eq)
  show "filteredNurses E [] ns = ns"
    by (simp add: filteredNurses_def)
  assume "list_all (\<lambda>r. toLowerCase E (dob r) = dob r \<and>
                   toLowerCase E (js (int_toString (age r))) = js (int_toString (age r))) ns"
  then have "\<forall>r\<in>set ns. toLowerCase E (dob r) = dob r \<and>
                toLowerCase E (js (int_toString (age r))) = js (int_toString (age r))"
    by (simp add: list_all_iff)
  then show "filteredNurses E q ns =
        filter (\<lambda>r. q = [] \<or> ci_substring E q (name r) \<or> ci_substring E q (license_number r) \<or>
                    ci_substring E q (dob r) \<or> ci_substring E q (js (int_toString (age r)))) ns"
    unfolding filteredNurses_eq by (intro filter_cong) (auto simp: ci_substring_def)
qed

lemma lower_samples:
  "list_all (\<lambda>r. toLowerCase example_engine (dob r) = dob r \<and>
                  toLowerCase example_engine (js (int_toString (age r))) = js (int_toString (age r)))
     sample_objects"
  by code_simp

lemma filteredNurses_sample:
  "filteredNurses example_engine (js ''RN-2024-003'') sample_objects =
     [nurse_object 3 ''Emily Williams'' ''RN-2024-003'' ''1988-11-08'' 36]"
  by code_simp

theorem filter_matches_substring_witness:
  "list_all (\<lambda>r. toLowerCase example_engine (dob r) = dob r \<and>
                  toLowerCase example_engine (js (int_toString (age r))) = js (int_toString (age r)))
     sample_objects \<and>
   filter (\<lambda>r. js ''RN-2024-003'' = [] \<or>
               ci_substring example_engine (js ''RN-2024-003'') (name r) \<or>
               ci_substring example_engine (js ''RN-2024-003'') (license_number r) \<or>
               ci_substring example_engine (js ''RN-2024-003'') (dob r) \<or>
               ci_substring example_engine (js ''RN-2024-003'') (js (int_toString (age r))))
     sample_objects =
     [nurse_object 3 ''Emily Williams'' ''RN-2024-003'' ''1988-11-08'' 36]"
proof -
  note lower_samples
  with filter_matches_substring[of example_engine "js ''RN-2024-003''" sample_objects]
  have "filteredNurses example_engine (js ''RN-2024-003'') sample_objects =
     filter (\<lambda>r. js ''RN-2024-003'' = [] \<or>
               ci_substring example_engine (js ''RN-2024-003'') (name r) \<or>
               ci_substring example_engine (js ''RN-2024-003'') (license_number r) \<or>
               ci_substring example_engine (js ''RN-2024-003'') (dob r) \<or>
               ci_substring example_engine (js ''RN-2024-003'') (js (int_toString (age r))))
     sample_objects"
    by blast
  with lower_samples filteredNurses_sample show ?thesis by simp
qed

text \<open>
  The query is lower-cased and the dob is not: \<^verbatim>\<open>T\<close> occurs in the dob of the record
  and the record is filtered out.
\<close>

theorem filter_dob_counterexample:
  "sublist (js ''T'') (js ''1990-01-01T00:00:00Z'') \<and>
   filteredNurses example_engine (js ''T'')
     [nurse_object 1 ''Ann Lee'' ''RN-1'' ''1990-01-01T00:00:00Z'' 34] = []"
proof -
  have "js ''1990-01-01T00:00:00Z'' = js ''1990-01-01'' @ js ''T'' @ js ''00:00:00Z''"
    by (simp add: js_def)
  then have "sublist (js ''T'') (js ''1990-01-01T00:00:00Z'')"
    unfolding sublist_def by blast
  moreover have "filteredNurses example_engine (js ''T'')
     [nurse_object 1 ''Ann Lee'' ''RN-1'' ''1990-01-01T00:00:00Z'' 34] = []"
    by code_simp
  ultimately show ?thesis by simp
qed

text \<open>
  The string of an age from \<open>10^21\<close> on is in exponent form: the query \<^verbatim>\<open>e+21\<close>
  finds the record of age \<open>10^21\<close> and the query \<^verbatim>\<open>1000\<close> does not.
\<close>

lemma filter_age_exponent_form:
  "filteredNurses example_engine (js ''e+21'')
     [nurse_object 1 ''Ann Lee'' ''RN-1'' ''1990-01-01'' 1000000000000000000000] =
     [nurse_object 1 ''Ann Lee'' ''RN-1'' ''1990-01-01'' 1000000000000000000000]"
  "filteredNurses example_engine (js ''1000'')
     [nurse_object 1 ''Ann Lee'' ''RN-1'' ''1990-01-01'' 1000000000000000000000] = []"
  by code_simp+

subsection \<open>The proposed age\<close>

lemma parse_date_only_nonempty: "parse_date_only v = Some t \<Longrightarrow> v \<noteq> []"
  by (auto simp: parse_date_only_def number_of_digits_def)

lemma shift_days_0: "shift_days 0 day = day"
  by (simp add: shift_days_def)

text \<open>
  In a zone that is not behind UTC the local day of midnight UTC is the same day.
\<close>

lemma local_fields_date_only:
  assumes "0 \<le> tz" and "tz < 1440"
  shows "local_fields tz (y, m, d, 0) = \<lparr>getFullYear = y, getMonth = m - 1, getDate = d\<rparr>"
proof -
  have "(tz * 60000) div 86400000 = 0"
    using assms by (simp add: div_pos_pos_trivial)
  then show ?thesis
    by (simp add: local_fields_def shift_days_0)
qed

lemma calculated_age_eq:
  "calculated_age today \<lparr>getFullYear = y, getMonth = m - 1, getDate = d\<rparr> =
     getFullYear today - y - (if not_yet_this_year today m d then 1 else 0)"
  by (auto simp: calculated_age_def not_yet_this_year_def Let_def)

text \<open>
  Claim C9, as amended. In a time zone that is not behind UTC, for today's calendar fields
  as the getters return them and every entered dob that is a valid date, year \<open>y\<close>, month
  \<open>m\<close> and day \<open>d\<close>: the React client puts in the form the difference of the years, less
  one exactly when the month and day of the dob are still to come this year; the
  plain-JavaScript client puts that number in the age field when it is positive and
  leaves the field blank otherwise. In the React client an empty dob leaves the age as it
  was.
\<close>

theorem derived_age_formula:
  assumes "parse_date_only v = Some (y, m, d)" and "0 \<le> tz" and "tz < 1440"
  shows "handleChange_dob E tz today v previous_age =
           int_toString (getFullYear today - y - (if not_yet_this_year today m d then 1 else 0)) \<and>
         nurseDob_change E tz today v =
           (if 0 < getFullYear today - y - (if not_yet_this_year today m d then 1 else 0)
            then int_toString (getFullYear today - y - (if not_yet_this_year today m d then 1 else 0))
            else '''') \<and>
         handleChange_dob E tz today [] previous_age = previous_age"
proof -
  have ne: "v \<noteq> []" using assms(1) by (rule parse_date_only_nonempty)
  have nd: "new_Date E v = Some (y, m, d, 0)" using assms(1) by (simp add: new_Date_def)
  have lf: "local_fields tz (y, m, d, 0) = \<lparr>getFullYear = y, getMonth = m - 1, getDate = d\<rparr>"
    using assms(2,3) by (rule local_fields_date_only)
  show ?thesis
    by (simp add: handleChange_dob_def nurseDob_change_def ne nd lf calculated_age_eq)
qed

lemma parse_date_only_examples:
  "parse_date_only (js ''1990-07-22'') = Some (1990, 7, 22)"
  "parse_date_only (js ''2024-01-15'') = Some (2024, 1, 15)"
  by code_simp+

theorem derived_age_formula_witness:
  "parse_date_only (js ''1990-07-22'') = Some (1990, 7, 22) \<and> (0::int) \<le> 60 \<and> (60::int) < 1440 \<and>
   not_yet_this_year \<lparr>getFullYear = 2024, getMonth = 5, getDate = 1\<rparr> 7 22 \<and>
   handleChange_dob example_engine 60 \<lparr>getFullYear = 2024, getMonth = 5, getDate = 1\<rparr>
     (js ''1990-07-22'') '''' = ''33'' \<and>
   nurseDob_change example_engine 60 \<lparr>getFullYear = 2024, getMonth = 5, getDate = 1\<rparr>
     (js ''1990-07-22'') = ''33''"
  using derived_age_formula[OF parse_date_only_examples(1), of 60 example_engine
      "\<lparr>getFullYear = 2024, getMonth = 5, getDate = 1\<rparr>" "''''"]
  by (simp add: not_yet_this_year_def int_toString_33 parse_date_only_examples)

text \<open>
  A dob earlier in the current year, in the zone of UTC: the difference of the years is 0,
  the month and day have passed, and the plain-JavaScript client leaves the field blank
  instead of 0.
\<close>

theorem derived_age_counterexample:
  "parse_date_only (js ''2024-01-15'') = Some (2024, 1, 15) \<and>
   \<not> not_yet_this_year \<lparr>getFullYear = 2024, getMonth = 5, getDate = 1\<rparr> 1 15 \<and>
   int_toString (getFullYear \<lparr>getFullYear = 2024, getMonth = 5, getDate = 1\<rparr> - 2024) = ''0'' \<and>
   nurseDob_change example_engine 0 \<lparr>getFullYear = 2024, getMonth = 5, getDate = 1\<rparr>
     (js ''2024-01-15'') = ''''"
proof -
  have "nurseDob_change example_engine 0 \<lparr>getFullYear = 2024, getMonth = 5, getDate = 1\<rparr>
     (js ''2024-01-15'') = ''''"
    by (simp add: nurseDob_change_def new_Date_def parse_date_only_examples local_fields_def
        shift_days_0 calculated_age_def Let_def)
  then show ?thesis
    by (simp add: not_yet_this_year_def int_toString_0 parse_date_only_examples)
qed

text \<open>
  West of UTC the getters read midnight UTC as the evening of the day before. In a zone
  five hours behind, on the 21st of July 2024, the day before the birthday, the age
  proposed for the dob \<^verbatim>\<open>1990-07-22\<close> is already 34.
\<close>

lemma local_fields_west:
  "local_fields (- 300) (1990, 7, 22, 0) = \<lparr>getFullYear = 1990, getMonth = 6, getDate = 21\<rparr>"
  by (simp add: local_fields_def shift_days_def)

lemma derived_age_west_of_UTC:
  "not_yet_this_year \<lparr>getFullYear = 2024, getMonth = 6, getDate = 21\<rparr> 7 22"
  "handleChange_dob example_engine (- 300) \<lparr>getFullYear = 2024, getMonth = 6, getDate = 21\<rparr>
     (js ''1990-07-22'') '''' = ''34''"
  "nurseDob_change example_engine (- 300) \<lparr>getFullYear = 2024, getMonth = 6, getDate = 21\<rparr>
     (js ''1990-07-22'') = ''34''"
  by (simp_all add: not_yet_this_year_def handleChange_dob_def nurseDob_change_def new_Date_def
      parse_date_only_examples parse_date_only_nonempty[OF parse_date_only_examples(1)]
      local_fields_west calculated_age_def int_toString_34 Let_def)

end
